theory Spec2Isabelle
  imports
    Main
    "HOL-Library.Sublist"
    "HOL-Library.Char_ord"
    "HOL-Library.List_Lexorder"
begin

section \<open>Skill-Cortex: the mutation layer and the serving layer\<close>

text \<open>
  This development embeds \<^verbatim>\<open>skill_cortex/skill_manager.py\<close> and the tool functions of
  \<^verbatim>\<open>skill_cortex/server.py\<close>.

  Conventions of the embedding:
  \<^item> A Python \<^verbatim>\<open>str\<close> is a \<open>string\<close>; one \<open>char\<close> stands for one code point, so
    texts are those over the code points below 256.
  \<^item> A \<^verbatim>\<open>pathlib.Path\<close> is the list of its components; \<^verbatim>\<open>name\<close> is the last
    component, \<^verbatim>\<open>parent\<close> drops it.
  \<^item> The file system is a map from paths to entries and is passed through every
    function that touches it; every function returns the file system it leaves.
  \<^item> A raised exception is the \<open>Inl\<close> branch of a sum.
\<close>

subsection \<open>Python string operations\<close>

text \<open>\<^verbatim>\<open>str.isspace\<close> on one code point below 256.\<close>

definition is_space :: "char \<Rightarrow> bool" where
  "is_space c \<longleftrightarrow> c \<in> {CHR 0x09, CHR 0x0A, CHR 0x0B, CHR 0x0C, CHR 0x0D,
      CHR 0x1C, CHR 0x1D, CHR 0x1E, CHR 0x1F, CHR 0x20, CHR 0x85, CHR 0xA0}"

definition lstrip :: "string \<Rightarrow> string" where
  "lstrip s = dropWhile is_space s"

definition rstrip :: "string \<Rightarrow> string" where
  "rstrip s = rev (dropWhile is_space (rev s))"

definition strip :: "string \<Rightarrow> string" where
  "strip s = rstrip (lstrip s)"

text \<open>\<^verbatim>\<open>s.split(sep)\<close> for a separator of one character: never an empty list.\<close>

fun split_char :: "char \<Rightarrow> string \<Rightarrow> string list" where
  "split_char sep [] = [[]]"
| "split_char sep (c # cs) =
     (if c = sep then [] # split_char sep cs
      else (case split_char sep cs of
              [] \<Rightarrow> [[c]]
            | w # ws \<Rightarrow> (c # w) # ws))"

text \<open>\<^verbatim>\<open>sub in s\<close>.\<close>

fun str_contains :: "string \<Rightarrow> string \<Rightarrow> bool" where
  "str_contains sub [] = (sub = [])"
| "str_contains sub (c # cs) = (prefix sub (c # cs) \<or> str_contains sub cs)"

definition startswith :: "string \<Rightarrow> string \<Rightarrow> bool" where
  "startswith s pre = prefix pre s"

definition endswith :: "string \<Rightarrow> string \<Rightarrow> bool" where
  "endswith s suf = suffix suf s"

text \<open>\<^verbatim>\<open>sep.join(xs)\<close>.\<close>

fun join :: "string \<Rightarrow> string list \<Rightarrow> string" where
  "join sep [] = []"
| "join sep [x] = x"
| "join sep (x # y # ys) = x @ sep @ join sep (y # ys)"

text \<open>\<^verbatim>\<open>str.lower\<close> on code points below 256.\<close>

definition lower_char :: "char \<Rightarrow> char" where
  "lower_char c =
     (let n = (of_char c :: nat)
      in if (65 \<le> n \<and> n \<le> 90) \<or> (192 \<le> n \<and> n \<le> 222 \<and> n \<noteq> 215)
         then char_of (n + 32) else c)"

definition lower :: "string \<Rightarrow> string" where
  "lower s = map lower_char s"

text \<open>Decimal rendering of a length, as an f-string prints it.\<close>

definition digit_char :: "nat \<Rightarrow> char" where
  "digit_char d = char_of (48 + d)"

function str_of_nat :: "nat \<Rightarrow> string" where
  "str_of_nat n = (if n < 10 then [digit_char n] else str_of_nat (n div 10) @ [digit_char (n mod 10)])"
  by pat_completeness auto
termination
  by (relation "measure id") auto

declare str_of_nat.simps [simp del]

subsection \<open>skill_manager.py: names and paths of skills\<close>

text \<open>
  \<^verbatim>\<open>re.match(r"^[a-z0-9-]+$", name)\<close>. Without the MULTILINE flag \<^verbatim>\<open>$\<close> matches at
  the end of the string and also just before a newline that ends the string.
\<close>

definition name_char :: "char \<Rightarrow> bool" where
  "name_char c \<longleftrightarrow> c \<in> set ''abcdefghijklmnopqrstuvwxyz0123456789-''"

definition re_match_name :: "string \<Rightarrow> bool" where
  "re_match_name name =
     (let core = (if name \<noteq> [] \<and> last name = CHR 0x0A then butlast name else name)
      in core \<noteq> [] \<and> list_all name_char core)"

definition validate_skill_name_part :: "string \<Rightarrow> bool \<times> string" where
  "validate_skill_name_part name =
     (if name = [] then (False, ''Name cannot be empty'')
      else if length name > 64
        then (False, ''Name too long (max 64 chars): '' @ str_of_nat (length name))
      else if \<not> re_match_name name
        then (False, ''Name must contain only lowercase letters, numbers, and hyphens'')
      else if startswith name ''-'' \<or> endswith name ''-''
        then (False, ''Name cannot start or end with a hyphen'')
      else if str_contains ''--'' name
        then (False, ''Name cannot contain consecutive hyphens'')
      else (True, []))"

text \<open>The loop over the parts: the first invalid part ends it with its message.\<close>

fun validate_parts :: "string list \<Rightarrow> string option" where
  "validate_parts [] = None"
| "validate_parts (part # rest) =
     (case validate_skill_name_part part of
        (True, _) \<Rightarrow> validate_parts rest
      | (False, error) \<Rightarrow>
          Some (''Invalid path component '' @ [CHR 0x27] @ part @ [CHR 0x27] @ '': '' @ error))"

text \<open>The list comprehension \<^verbatim>\<open>[p.strip() for p in path.split("/") if p.strip()]\<close>.\<close>

definition path_parts :: "string \<Rightarrow> string list" where
  "path_parts path = map strip (filter (\<lambda>p. strip p \<noteq> []) (split_char CHR ''/'' path))"

text \<open>The result is the triple (category path, skill name, error message or None).\<close>

definition parse_skill_path :: "string \<Rightarrow> string list \<times> string \<times> string option" where
  "parse_skill_path path =
     (if path = [] then ([], [], Some ''Path cannot be empty'')
      else let parts = path_parts path
           in if parts = [] then ([], [], Some ''Path cannot be empty'')
              else (case validate_parts parts of
                      Some msg \<Rightarrow> ([], [], Some msg)
                    | None \<Rightarrow> (butlast parts, last parts, None)))"

subsection \<open>Paths and the file system\<close>

type_synonym path = "string list"

definition path_name :: "path \<Rightarrow> string" where
  "path_name p = (if p = [] then [] else last p)"

definition parent :: "path \<Rightarrow> path" where
  "parent p = butlast p"

text \<open>
  \<^verbatim>\<open>p.relative_to(root)\<close> compares components only: it raises ValueError (here None)
  unless the components of \<open>root\<close> start those of \<open>p\<close>, and returns the rest.
\<close>

definition relative_to :: "path \<Rightarrow> path \<Rightarrow> path option" where
  "relative_to p root = (if prefix root p then Some (drop (length root) p) else None)"

text \<open>
  A file system maps the paths that exist to what is there. A path is looked up by its
  components as they are written: the components are names, a \<^verbatim>\<open>..\<close> component and a
  symbolic link are not resolved. A regular file holds its text as \<^verbatim>\<open>read_text\<close> hands
  it over, decoded and with its line ends as the reader delivers them.
\<close>

datatype entry = File string | Dir

type_synonym filesystem = "path \<Rightarrow> entry option"

datatype os_error =
    FileExistsError path
  | FileNotFoundError path
  | NotADirectoryError path
  | IsADirectoryError path

definition exists :: "filesystem \<Rightarrow> path \<Rightarrow> bool" where
  "exists fs p \<longleftrightarrow> fs p \<noteq> None"

definition is_dir :: "filesystem \<Rightarrow> path \<Rightarrow> bool" where
  "is_dir fs p \<longleftrightarrow> fs p = Some Dir"

text \<open>
  Whether a regular file stands where a directory on the way to \<open>p\<close> should be. The
  operating system then answers ENOTDIR for \<open>p\<close> itself, where it answers ENOENT when
  a directory on the way is merely missing.
\<close>

definition below_file :: "filesystem \<Rightarrow> path \<Rightarrow> bool" where
  "below_file fs p \<longleftrightarrow>
     list_ex (\<lambda>q. case fs q of Some (File _) \<Rightarrow> True | _ \<Rightarrow> False) (prefixes (parent p))"

definition missing :: "filesystem \<Rightarrow> path \<Rightarrow> os_error" where
  "missing fs p = (if below_file fs p then NotADirectoryError p else FileNotFoundError p)"

text \<open>\<^verbatim>\<open>os.mkdir\<close>: one directory, whose parent has to be a directory.\<close>

definition os_mkdir :: "filesystem \<Rightarrow> path \<Rightarrow> os_error + filesystem" where
  "os_mkdir fs p =
     (if fs p \<noteq> None then Inl (FileExistsError p)
      else (case fs (parent p) of
              None \<Rightarrow> Inl (missing fs p)
            | Some (File _) \<Rightarrow> Inl (NotADirectoryError p)
            | Some Dir \<Rightarrow> Inr (fs(p \<mapsto> Dir))))"

fun is_not_found :: "os_error \<Rightarrow> bool" where
  "is_not_found (FileNotFoundError _) = True"
| "is_not_found _ = False"

text \<open>
  \<^verbatim>\<open>Path.mkdir(exist_ok=True)\<close>: pathlib calls \<^verbatim>\<open>os.mkdir\<close>, re-raises
  FileNotFoundError (no \<^verbatim>\<open>parents\<close>), and swallows any other OSError when the path is
  a directory.
\<close>

definition mkdir_exist_ok :: "filesystem \<Rightarrow> path \<Rightarrow> os_error + filesystem" where
  "mkdir_exist_ok fs p =
     (case os_mkdir fs p of
        Inr fs' \<Rightarrow> Inr fs'
      | Inl err \<Rightarrow>
          if is_not_found err then Inl err
          else if \<not> is_dir fs p then Inl err
          else Inr fs)"

text \<open>
  \<^verbatim>\<open>Path.mkdir(parents=True, exist_ok=True)\<close>: on FileNotFoundError pathlib makes the
  parent (with the same flags) and then this directory again without \<^verbatim>\<open>parents\<close>.
\<close>

function mkdir_parents :: "filesystem \<Rightarrow> path \<Rightarrow> os_error + filesystem" where
  "mkdir_parents fs p =
     (case os_mkdir fs p of
        Inr fs' \<Rightarrow> Inr fs'
      | Inl err \<Rightarrow>
          if is_not_found err then
            (if parent p = p then Inl err
             else (case mkdir_parents fs (parent p) of
                     Inl err' \<Rightarrow> Inl err'
                   | Inr fs' \<Rightarrow> mkdir_exist_ok fs' p))
          else if \<not> is_dir fs p then Inl err
          else Inr fs)"
  by pat_completeness auto
termination
proof (relation "measure (\<lambda>(fs, p). length p)")
  show "wf (measure (\<lambda>(fs :: filesystem, p :: path). length p))"
    by simp
next
  fix fs :: filesystem and p :: path
  assume "parent p \<noteq> p"
  then have "p \<noteq> []"
    by (auto simp: parent_def)
  then show "((fs, parent p), (fs, p)) \<in> measure (\<lambda>(fs, p). length p)"
    by (simp add: parent_def)
qed

declare mkdir_parents.simps [simp del]

text \<open>\<^verbatim>\<open>Path.write_text\<close>: opens the file for writing and replaces its content.\<close>

definition write_text :: "filesystem \<Rightarrow> path \<Rightarrow> string \<Rightarrow> os_error + filesystem" where
  "write_text fs p content =
     (case fs p of
        Some Dir \<Rightarrow> Inl (IsADirectoryError p)
      | _ \<Rightarrow> (case fs (parent p) of
                None \<Rightarrow> Inl (missing fs p)
              | Some (File _) \<Rightarrow> Inl (NotADirectoryError p)
              | Some Dir \<Rightarrow> Inr (fs(p \<mapsto> File content))))"

definition read_text :: "filesystem \<Rightarrow> path \<Rightarrow> os_error + string" where
  "read_text fs p =
     (case fs p of
        None \<Rightarrow> Inl (missing fs p)
      | Some Dir \<Rightarrow> Inl (IsADirectoryError p)
      | Some (File text) \<Rightarrow> Inr text)"

text \<open>\<^verbatim>\<open>shutil.rmtree\<close>: the directory and everything below it goes.\<close>

definition rmtree :: "filesystem \<Rightarrow> path \<Rightarrow> os_error + filesystem" where
  "rmtree fs p =
     (case fs p of
        None \<Rightarrow> Inl (missing fs p)
      | Some (File _) \<Rightarrow> Inl (NotADirectoryError p)
      | Some Dir \<Rightarrow> Inr (\<lambda>q. if prefix p q then None else fs q))"

definition rmtree_ignore_errors :: "filesystem \<Rightarrow> path \<Rightarrow> filesystem" where
  "rmtree_ignore_errors fs p = (case rmtree fs p of Inl _ \<Rightarrow> fs | Inr fs' \<Rightarrow> fs')"

subsection \<open>skill_manager.py: creating a skill\<close>

definition nl :: string where
  "nl = [CHR 0x0A]"

definition body_template :: string where
  "body_template = join nl
     [[], [],
      ''## Instructions'', [],
      ''[Provide detailed step-by-step instructions for using this skill]'', [],
      ''## Examples'', [],
      ''[Add examples of how to use this skill]'', [],
      ''## Notes'', [],
      ''[Add any additional notes or considerations]'', []]"

text \<open>
  An optional string is truthy when it is there and not empty; the metadata dictionary
  is the list of its items in insertion order.
\<close>

definition generate_skill_markdown ::
  "string \<Rightarrow> string \<Rightarrow> string list \<Rightarrow> string option \<Rightarrow> string option \<Rightarrow>
   (string \<times> string) list option \<Rightarrow> string" where
  "generate_skill_markdown name description tags instructions license metadata =
     (let frontmatter_lines =
            [''---'', ''name: '' @ name, ''description: '' @ description]
            @ (if tags \<noteq> [] then [''tags: '' @ ''['' @ join '', '' tags @ '']''] else [])
            @ (case license of
                 None \<Rightarrow> []
               | Some l \<Rightarrow> if l \<noteq> [] then [''license: '' @ l] else [])
            @ (case metadata of
                 None \<Rightarrow> []
               | Some m \<Rightarrow>
                   if m \<noteq> []
                   then ''metadata:'' # map (\<lambda>(key, value). ''  '' @ key @ '': '' @ value) m
                   else [])
            @ [''---''];
          frontmatter = join nl frontmatter_lines;
          body = (case instructions of
                    None \<Rightarrow> body_template
                  | Some i \<Rightarrow> if i \<noteq> [] then nl @ nl @ i else body_template)
      in frontmatter @ body)"

text \<open>
  The detail of a failure is a fixed message, a message that ends with a path, or the
  exception that was caught.
\<close>

datatype detail = Msg string | Msg_path string path | Exc os_error

datatype create_result =
    Create_failed string detail
  | Create_ok path path string "string list"

fun create_ok :: "create_result \<Rightarrow> bool" where
  "create_ok (Create_ok _ _ _ _) = True"
| "create_ok (Create_failed _ _) = False"

fun create_error :: "create_result \<Rightarrow> string option" where
  "create_error (Create_failed e _) = Some e"
| "create_error (Create_ok _ _ _ _) = None"

text \<open>The loop that looks for a root named \<^verbatim>\<open>.skills\<close> or \<^verbatim>\<open>skills\<close> and breaks.\<close>

fun find_writable_root :: "path list \<Rightarrow> path option" where
  "find_writable_root [] = None"
| "find_writable_root (root # rest) =
     (if path_name root = ''.skills'' \<or> path_name root = ''skills'' then Some root
      else find_writable_root rest)"

definition select_target_root :: "path list \<Rightarrow> path option" where
  "select_target_root roots =
     (let target_root = find_writable_root roots;
          target_root = (if target_root = None \<and> roots \<noteq> [] then Some (hd roots) else target_root)
      in target_root)"

text \<open>
  The three optional directories, made in this order. The first failure ends the block
  with its exception; the directories made before it stay.
\<close>

fun mkdir_optional :: "filesystem \<Rightarrow> (bool \<times> path) list \<Rightarrow> os_error option \<times> filesystem" where
  "mkdir_optional fs [] = (None, fs)"
| "mkdir_optional fs ((wanted, p) # rest) =
     (if wanted
      then (case mkdir_exist_ok fs p of
              Inl exc \<Rightarrow> (Some exc, fs)
            | Inr fs' \<Rightarrow> mkdir_optional fs' rest)
      else mkdir_optional fs rest)"

text \<open>
  The part of \<^verbatim>\<open>create_skill\<close> after the choice of the target root: the existence
  check, the directory, the file, the optional directories.
\<close>

definition create_skill_at ::
  "path \<Rightarrow> string list \<Rightarrow> string \<Rightarrow> string \<Rightarrow> string list \<Rightarrow>
   string option \<Rightarrow> string option \<Rightarrow> (string \<times> string) list option \<Rightarrow>
   bool \<Rightarrow> bool \<Rightarrow> bool \<Rightarrow> filesystem \<Rightarrow> create_result \<times> filesystem" where
  "create_skill_at target_root category_path skill_name description normalized_tags
       instructions license metadata create_scripts_dir create_references_dir create_assets_dir fs =
     (let skill_dir = target_root @ category_path @ [skill_name];
          skill_md_path = skill_dir @ [''SKILL.md'']
      in if exists fs skill_md_path
         then (Create_failed ''skill_exists'' (Msg_path ''Skill already exists at '' skill_md_path), fs)
         else (case mkdir_parents fs skill_dir of
            Inl exc \<Rightarrow> (Create_failed ''mkdir_failed'' (Exc exc), fs)
          | Inr fs1 \<Rightarrow>
             let markdown_content = generate_skill_markdown skill_name description
                   normalized_tags instructions license metadata
             in (case write_text fs1 skill_md_path markdown_content of
                   Inl exc \<Rightarrow>
                     (Create_failed ''write_failed'' (Exc exc), rmtree_ignore_errors fs1 skill_dir)
                 | Inr fs2 \<Rightarrow>
                    (case mkdir_optional fs2
                            [(create_scripts_dir, skill_dir @ [''scripts'']),
                             (create_references_dir, skill_dir @ [''references'']),
                             (create_assets_dir, skill_dir @ [''assets''])] of
                       (Some exc, fs3) \<Rightarrow> (Create_failed ''mkdir_optional_failed'' (Exc exc), fs3)
                     | (None, fs3) \<Rightarrow>
                         (Create_ok skill_md_path skill_dir skill_name category_path, fs3)))))"

text \<open>
  \<open>normalize_tags\<close> comes from \<^verbatim>\<open>skill_cortex/frontmatter.py\<close> and is a parameter
  here. \<^verbatim>\<open>if error:\<close> is taken when the message is there and not empty. The function
  returns its result and the file system it leaves.
\<close>

definition create_skill ::
  "(string list \<Rightarrow> string list) \<Rightarrow> path list \<Rightarrow> string \<Rightarrow> string \<Rightarrow> string list option \<Rightarrow>
   string option \<Rightarrow> string option \<Rightarrow> (string \<times> string) list option \<Rightarrow>
   bool \<Rightarrow> bool \<Rightarrow> bool \<Rightarrow> filesystem \<Rightarrow> create_result \<times> filesystem" where
  "create_skill normalize_tags roots path description tags instructions license metadata
       create_scripts_dir create_references_dir create_assets_dir fs =
     (case parse_skill_path path of (category_path, skill_name, error) \<Rightarrow>
      if error \<noteq> None \<and> error \<noteq> Some []
        then (Create_failed ''invalid_path'' (Msg (case error of Some e \<Rightarrow> e | None \<Rightarrow> [])), fs)
      else if description = [] \<or> length description > 1024
        then (Create_failed ''invalid_description''
                (Msg ''Description must be 1-1024 characters''), fs)
      else let normalized_tags = normalize_tags (case tags of None \<Rightarrow> [] | Some ts \<Rightarrow> ts)
      in (case select_target_root roots of
            None \<Rightarrow> (Create_failed ''no_root'' (Msg ''No skill root directory configured''), fs)
          | Some target_root \<Rightarrow>
              create_skill_at target_root category_path skill_name description normalized_tags
                instructions license metadata
                create_scripts_dir create_references_dir create_assets_dir fs))"

subsection \<open>skill_manager.py: deleting a skill\<close>

text \<open>
  The loop over the roots. A root that does not start the path, and a root that does
  but has none of the three names, passes the decision to the next root.
\<close>

fun is_deletable_skill :: "path \<Rightarrow> path list \<Rightarrow> bool \<times> string" where
  "is_deletable_skill skill_path [] = (False, ''Skill not in a deletable directory'')"
| "is_deletable_skill skill_path (root # rest) =
     (case relative_to skill_path root of
        None \<Rightarrow> is_deletable_skill skill_path rest
      | Some rel_path \<Rightarrow>
          if path_name root = ''.skills'' \<or> path_name root = ''skills'' then
            (if ''imported'' \<in> set rel_path then (False, ''Cannot delete imported skills'')
             else (True, []))
          else if path_name root = ''.skill_cortex_sources''
            then (False, ''Cannot delete skills from source repositories'')
          else is_deletable_skill skill_path rest)"

datatype delete_result =
    Delete_failed string detail
  | Confirmation_required path path
  | Delete_ok path path

text \<open>
  \<open>Confirmation_required skill_path skill_dir\<close> is the preview dictionary: ok false,
  error \<^verbatim>\<open>confirmation_required\<close>, and the two paths.
\<close>

fun delete_ok :: "delete_result \<Rightarrow> bool" where
  "delete_ok (Delete_ok _ _) = True"
| "delete_ok _ = False"

fun delete_error :: "delete_result \<Rightarrow> string option" where
  "delete_error (Delete_failed e _) = Some e"
| "delete_error (Confirmation_required _ _) = Some ''confirmation_required''"
| "delete_error (Delete_ok _ _) = None"

definition delete_skill ::
  "path \<Rightarrow> path list \<Rightarrow> bool \<Rightarrow> filesystem \<Rightarrow> delete_result \<times> filesystem" where
  "delete_skill skill_path roots confirm fs =
     (if \<not> exists fs skill_path
        then (Delete_failed ''skill_not_found'' (Msg_path ''Skill not found at '' skill_path), fs)
      else (case is_deletable_skill skill_path roots of (is_deletable, reason) \<Rightarrow>
        if \<not> is_deletable then (Delete_failed ''not_deletable'' (Msg reason), fs)
        else let skill_dir = parent skill_path
        in if \<not> confirm then (Confirmation_required skill_path skill_dir, fs)
           else (case rmtree fs skill_dir of
                   Inl exc \<Rightarrow> (Delete_failed ''delete_failed'' (Exc exc), fs)
                 | Inr fs' \<Rightarrow> (Delete_ok skill_path skill_dir, fs'))))"

subsection \<open>The data model of the index\<close>

text \<open>
  Modelled from the spec: the classes of \<^verbatim>\<open>skill_cortex/models.py\<close>,
  \<^verbatim>\<open>TagsRegistry\<close> of \<^verbatim>\<open>skill_cortex/tags_registry.py\<close> and the fields of
  \<^verbatim>\<open>AppConfig\<close> that the server reads are not part of the sources at hand; the records
  below follow section 3 of the specification and the attributes that
  \<^verbatim>\<open>server.py\<close> reads. A dictionary is the list of its items in insertion order.
\<close>

record SkillFrontmatter =
  fm_title :: string
  fm_description :: string
  fm_tags :: "string list"
  fm_license :: "string option"
  fm_metadata :: "(string \<times> string) list option"

record SkillRecord =
  skill_id :: string
  skill_path :: path
  frontmatter :: SkillFrontmatter
  description_snapshot :: string
  tag_issues :: "string list"
  category_path :: "string list"

datatype TreeNode = TreeNode (children: "(string \<times> TreeNode) list") (skills: "SkillRecord list")

record ScanResult =
  scan_tree :: TreeNode
  scan_skills_list :: "SkillRecord list"

record TagsRegistry =
  allowed_tags :: "string set"

record AppConfig =
  cfg_roots :: "path list"
  cfg_cache_path :: path
  cfg_tags_path :: path

text \<open>\<^verbatim>\<open>d.get(k)\<close> and \<^verbatim>\<open>d.keys()\<close> of a dictionary; a dictionary holds a key once.\<close>

definition dict_get :: "('k \<times> 'v) list \<Rightarrow> 'k \<Rightarrow> 'v option" where
  "dict_get d k = map_of d k"

definition dict_keys :: "('k \<times> 'v) list \<Rightarrow> 'k list" where
  "dict_keys d = remdups (map fst d)"

subsection \<open>The collaborators of the server\<close>

text \<open>
  \<^verbatim>\<open>normalize_tags\<close>, \<^verbatim>\<open>load_tags_registry\<close>, \<^verbatim>\<open>load_index\<close>, \<^verbatim>\<open>scan_skills\<close> and
  \<^verbatim>\<open>save_index\<close> live in modules that are not part of the sources at hand. The
  server is verified for every choice of them: they are the fields of an environment.
  What the server does with them is recorded in a trace of events, together with the
  acquisitions and releases of \<^verbatim>\<open>state_lock\<close>.
\<close>

record env =
  normalize_tags :: "string list \<Rightarrow> string list"
  load_tags_registry :: "filesystem \<Rightarrow> path \<Rightarrow> TagsRegistry"
  load_index :: "filesystem \<Rightarrow> path \<Rightarrow> ScanResult option"
  scan_skills :: "filesystem \<Rightarrow> path list \<Rightarrow> TagsRegistry option \<Rightarrow> ScanResult"
  save_index :: "filesystem \<Rightarrow> path \<Rightarrow> ScanResult \<Rightarrow> filesystem"

datatype event =
    Lock_acquired
  | Lock_released
  | Called_load_tags_registry
  | Called_load_index
  | Called_scan_skills
  | Called_save_index
  | Called_create_skill
  | Called_delete_skill
  | Called_update_tags_in_skill_md path

text \<open>
  The world of one server process: the file system, the dictionary \<^verbatim>\<open>state\<close> with
  its two entries, and the trace so far (oldest event first).
\<close>

record world =
  w_fs :: filesystem
  st_registry :: "TagsRegistry option"
  st_scan :: "ScanResult option"
  w_trace :: "event list"

definition emit :: "event \<Rightarrow> world \<Rightarrow> world" where
  "emit e w = w\<lparr>w_trace := w_trace w @ [e]\<rparr>"

subsection \<open>server.py: helpers\<close>

text \<open>
  The body of \<^verbatim>\<open>with state_lock:\<close> runs between the acquisition and the release;
  the early return releases the lock as well.
\<close>

definition ensure_state_loaded :: "AppConfig \<Rightarrow> env \<Rightarrow> world \<Rightarrow> world" where
  "ensure_state_loaded config E w =
     (let w = emit Lock_acquired w
      in if st_registry w \<noteq> None \<and> st_scan w \<noteq> None then emit Lock_released w
         else
           let reg = load_tags_registry E (w_fs w) (cfg_tags_path config);
               w = emit Called_load_tags_registry w;
               cached = load_index E (w_fs w) (cfg_cache_path config);
               w = emit Called_load_index w;
               (sc, w) =
                 (case cached of
                    Some sc \<Rightarrow> (sc, w)
                  | None \<Rightarrow>
                      let sc = scan_skills E (w_fs w) (cfg_roots config) (Some reg);
                          w = emit Called_scan_skills w;
                          w = w\<lparr>w_fs := save_index E (w_fs w) (cfg_cache_path config) sc\<rparr>;
                          w = emit Called_save_index w
                      in (sc, w));
               w = w\<lparr>st_registry := Some reg, st_scan := Some sc\<rparr>
           in emit Lock_released w)"

definition parse_path_arg :: "string option \<Rightarrow> string list" where
  "parse_path_arg path =
     (case path of
        None \<Rightarrow> []
      | Some p \<Rightarrow> if p = [] then [] else filter (\<lambda>x. x \<noteq> []) (split_char CHR ''/'' p))"

fun find_node :: "TreeNode \<Rightarrow> string list \<Rightarrow> TreeNode option" where
  "find_node node [] = Some node"
| "find_node node (part # rest) =
     (case dict_get (children node) part of
        None \<Rightarrow> None
      | Some child \<Rightarrow> find_node child rest)"

record skill_summary =
  sum_skill_id :: string
  sum_title :: string
  sum_description_snapshot :: string
  sum_tags :: "string list"
  sum_tag_issues :: "string list"
  sum_category_path :: "string list"

definition summarize_skill :: "SkillRecord \<Rightarrow> skill_summary" where
  "summarize_skill skill =
     \<lparr>sum_skill_id = skill_id skill,
      sum_title = fm_title (frontmatter skill),
      sum_description_snapshot = description_snapshot skill,
      sum_tags = fm_tags (frontmatter skill),
      sum_tag_issues = tag_issues skill,
      sum_category_path = category_path skill\<rparr>"

definition format_tags_inline :: "string list \<Rightarrow> string" where
  "format_tags_inline tags = ''['' @ join '', '' tags @ '']''"

subsection \<open>server.py: rewriting the tags line of a skill file\<close>

text \<open>
  \<^verbatim>\<open>text.splitlines(keepends=True)\<close> on code points below 256: a line ends after a
  line boundary, which stays in the line; carriage return and line feed together are
  one boundary; no line follows a last boundary.
\<close>

definition is_linebreak :: "char \<Rightarrow> bool" where
  "is_linebreak c \<longleftrightarrow> c \<in> {CHR 0x0A, CHR 0x0B, CHR 0x0C, CHR 0x0D,
      CHR 0x1C, CHR 0x1D, CHR 0x1E, CHR 0x85}"

fun splitlines_from :: "string \<Rightarrow> string \<Rightarrow> string list" where
  "splitlines_from cur [] = (if cur = [] then [] else [cur])"
| "splitlines_from cur [c] = [cur @ [c]]"
| "splitlines_from cur (c # d # cs) =
     (if c = CHR 0x0D \<and> d = CHR 0x0A then (cur @ [c, d]) # splitlines_from [] cs
      else if is_linebreak c then (cur @ [c]) # splitlines_from [] (d # cs)
      else splitlines_from (cur @ [c]) (d # cs))"

definition splitlines_keepends :: "string \<Rightarrow> string list" where
  "splitlines_keepends text = splitlines_from [] text"

text \<open>
  The search \<^verbatim>\<open>for i in range(1, len(lines))\<close> for the closing delimiter; the first
  argument is the index of the head of the list.
\<close>

fun find_end_index :: "nat \<Rightarrow> string list \<Rightarrow> nat option" where
  "find_end_index i [] = None"
| "find_end_index i (line # rest) =
     (if strip line = ''---'' then Some i else find_end_index (Suc i) rest)"

text \<open>The loop over the frontmatter lines: the new lines and the flag \<^verbatim>\<open>found\<close>.\<close>

fun replace_tags_lines :: "string \<Rightarrow> string list \<Rightarrow> string list \<times> bool" where
  "replace_tags_lines new_tags_line [] = ([], False)"
| "replace_tags_lines new_tags_line (raw # rest) =
     (case replace_tags_lines new_tags_line rest of (updated, found) \<Rightarrow>
        if startswith (lower (lstrip raw)) ''tags:''
        then (new_tags_line # updated, True)
        else (raw # updated, found))"

datatype exn = ValueError string | OSError os_error | AttributeError

text \<open>
  The result is the exception raised, if any, and the file system the call leaves.
\<close>

definition update_tags_in_skill_md ::
  "path \<Rightarrow> string list \<Rightarrow> filesystem \<Rightarrow> exn option \<times> filesystem" where
  "update_tags_in_skill_md skill_md_path new_tags fs =
     (case read_text fs skill_md_path of
        Inl exc \<Rightarrow> (Some (OSError exc), fs)
      | Inr text \<Rightarrow>
         let lines = splitlines_keepends text
         in if lines = [] then (Some (ValueError ''empty_file''), fs)
            else if strip (hd lines) \<noteq> ''---'' then (Some (ValueError ''missing_frontmatter''), fs)
            else (case find_end_index 1 (tl lines) of
                    None \<Rightarrow> (Some (ValueError ''unterminated_frontmatter''), fs)
                  | Some end_index \<Rightarrow>
                     let open_delim = hd lines;
                         front = take (end_index - 1) (drop 1 lines);
                         close_delim = lines ! end_index;
                         body = drop (end_index + 1) lines;
                         new_tags_line = ''tags: '' @ format_tags_inline new_tags @ nl;
                         (updated, found) = replace_tags_lines new_tags_line front;
                         updated_front = (if \<not> found then updated @ [new_tags_line] else updated)
                     in (case write_text fs skill_md_path
                                (open_delim @ concat updated_front @ close_delim @ concat body) of
                           Inl exc \<Rightarrow> (Some (OSError exc), fs)
                         | Inr fs' \<Rightarrow> (None, fs'))))"

subsection \<open>server.py: the tools\<close>

datatype tree_response =
    Path_not_found "string list"
  | Tree_ok (resp_path: "string list") (categories: "string list") (resp_skills: "skill_summary list")

text \<open>\<^verbatim>\<open>sorted\<close> on strings is the order of the code points, letter by letter.\<close>

definition list_skill_tree ::
  "AppConfig \<Rightarrow> env \<Rightarrow> string option \<Rightarrow> world \<Rightarrow> (exn + tree_response) \<times> world" where
  "list_skill_tree config E path w =
     (let w = ensure_state_loaded config E w;
          parts = parse_path_arg path
      in (case st_scan w of
            None \<Rightarrow> (Inl AttributeError, w)
          | Some sc \<Rightarrow>
              (case find_node (scan_tree sc) parts of
                 None \<Rightarrow> (Inr (Path_not_found parts), w)
               | Some node \<Rightarrow>
                   (Inr (Tree_ok parts (sort (dict_keys (children node)))
                           (map summarize_skill (skills node))), w))))"

text \<open>
  One entry of \<^verbatim>\<open>updates\<close>: the two keys that are read, each possibly missing.
\<close>

record update_request =
  upd_skill_id :: "string option"
  upd_tags :: "string list option"

datatype update_result =
    Missing_skill_id
  | Missing_tags string
  | Invalid_tags string "string list"
  | Skill_not_found string
  | Tags_written string "string list"
  | Write_failed string exn

fun update_error :: "update_result \<Rightarrow> string option" where
  "update_error Missing_skill_id = Some ''missing_skill_id''"
| "update_error (Missing_tags _) = Some ''missing_tags''"
| "update_error (Invalid_tags _ _) = Some ''invalid_tags''"
| "update_error (Skill_not_found _) = Some ''skill_not_found''"
| "update_error (Write_failed _ _) = Some ''write_failed''"
| "update_error (Tags_written _ _) = None"

text \<open>
  The body of the loop over \<^verbatim>\<open>updates\<close> for one entry: its result and the world it
  leaves.
\<close>

definition apply_update ::
  "env \<Rightarrow> string set \<Rightarrow> SkillRecord list \<Rightarrow> update_request \<Rightarrow> world \<Rightarrow> update_result \<times> world" where
  "apply_update E allowed known upd w =
     (let sid = strip (case upd_skill_id upd of None \<Rightarrow> [] | Some x \<Rightarrow> x);
          tags_tuple = normalize_tags E (case upd_tags upd of None \<Rightarrow> [] | Some ts \<Rightarrow> ts)
      in if sid = [] then (Missing_skill_id, w)
         else if tags_tuple = [] then (Missing_tags sid, w)
         else let invalid = filter (\<lambda>t. t \<notin> allowed) tags_tuple
         in if invalid \<noteq> [] then (Invalid_tags sid invalid, w)
            else (case find (\<lambda>s. skill_id s = sid) known of
                    None \<Rightarrow> (Skill_not_found sid, w)
                  | Some skill \<Rightarrow>
                      (case update_tags_in_skill_md (skill_path skill) tags_tuple (w_fs w) of
                         (None, fs') \<Rightarrow>
                           (Tags_written sid tags_tuple,
                            emit (Called_update_tags_in_skill_md (skill_path skill)) (w\<lparr>w_fs := fs'\<rparr>))
                       | (Some exc, fs') \<Rightarrow>
                           (Write_failed sid exc,
                            emit (Called_update_tags_in_skill_md (skill_path skill)) (w\<lparr>w_fs := fs'\<rparr>)))))"

fun apply_updates ::
  "env \<Rightarrow> string set \<Rightarrow> SkillRecord list \<Rightarrow> update_request list \<Rightarrow> world \<Rightarrow>
   update_result list \<times> world" where
  "apply_updates E allowed known [] w = ([], w)"
| "apply_updates E allowed known (upd # rest) w =
     (case apply_update E allowed known upd w of (r, w') \<Rightarrow>
        (case apply_updates E allowed known rest w' of (rs, w'') \<Rightarrow> (r # rs, w'')))"

text \<open>The rescan and the resave that end a mutation.\<close>

definition rescan_and_save :: "AppConfig \<Rightarrow> env \<Rightarrow> world \<Rightarrow> world" where
  "rescan_and_save config E w =
     (let sc = scan_skills E (w_fs w) (cfg_roots config) (st_registry w);
          w = emit Called_scan_skills (w\<lparr>st_scan := Some sc\<rparr>);
          w = emit Called_save_index (w\<lparr>w_fs := save_index E (w_fs w) (cfg_cache_path config) sc\<rparr>)
      in w)"

datatype tags_response =
    Tags_listed nat "skill_summary list"
  | Invalid_mode "string option"
  | Missing_updates
  | Tags_applied "update_result list"

definition update_tags ::
  "AppConfig \<Rightarrow> env \<Rightarrow> string option \<Rightarrow> update_request list option \<Rightarrow> world \<Rightarrow>
   (exn + tags_response) \<times> world" where
  "update_tags config E mode updates w =
     (let w = ensure_state_loaded config E w;
          m = lower (strip (case mode of None \<Rightarrow> ''list'' | Some x \<Rightarrow> if x = [] then ''list'' else x))
      in (case (st_scan w, st_registry w) of
            (Some sc, Some reg) \<Rightarrow>
              if m = ''list'' then
                (let bad = filter (\<lambda>s. tag_issues s \<noteq> []) (scan_skills_list sc)
                 in (Inr (Tags_listed (length bad) (map summarize_skill bad)), w))
              else if m \<noteq> ''apply'' then (Inr (Invalid_mode mode), w)
              else (case updates of
                      None \<Rightarrow> (Inr Missing_updates, w)
                    | Some [] \<Rightarrow> (Inr Missing_updates, w)
                    | Some (u # us) \<Rightarrow>
                       (case apply_updates E (allowed_tags reg) (scan_skills_list sc) (u # us) w of
                          (results, w) \<Rightarrow>
                            (Inr (Tags_applied results), rescan_and_save config E w)))
          | _ \<Rightarrow> (Inl AttributeError, w)))"

definition create_new_skill ::
  "AppConfig \<Rightarrow> env \<Rightarrow> string \<Rightarrow> string \<Rightarrow> string list option \<Rightarrow> string option \<Rightarrow>
   string option \<Rightarrow> (string \<times> string) list option \<Rightarrow> bool \<Rightarrow> bool \<Rightarrow> bool \<Rightarrow> world \<Rightarrow>
   create_result \<times> world" where
  "create_new_skill config E path description tags instructions license metadata
       create_scripts_dir create_references_dir create_assets_dir w =
     (let w = ensure_state_loaded config E w
      in (case create_skill (normalize_tags E) (cfg_roots config) path description tags
                 instructions license metadata
                 create_scripts_dir create_references_dir create_assets_dir (w_fs w) of
            (result, fs') \<Rightarrow>
              let w = emit Called_create_skill (w\<lparr>w_fs := fs'\<rparr>)
              in if create_ok result then (result, rescan_and_save config E w)
                 else (result, w)))"

datatype delete_response =
    Unknown_skill string
  | Delete_response delete_result

definition delete_existing_skill ::
  "AppConfig \<Rightarrow> env \<Rightarrow> string \<Rightarrow> bool \<Rightarrow> world \<Rightarrow> (exn + delete_response) \<times> world" where
  "delete_existing_skill config E sid confirm w =
     (let w = ensure_state_loaded config E w
      in (case st_scan w of
            None \<Rightarrow> (Inl AttributeError, w)
          | Some sc \<Rightarrow>
              (case find (\<lambda>s. skill_id s = sid) (scan_skills_list sc) of
                 None \<Rightarrow> (Inr (Unknown_skill sid), w)
               | Some skill \<Rightarrow>
                   (case delete_skill (skill_path skill) (cfg_roots config) confirm (w_fs w) of
                      (result, fs') \<Rightarrow>
                        let w = emit Called_delete_skill (w\<lparr>w_fs := fs'\<rparr>)
                        in if delete_ok result
                           then (Inr (Delete_response result), rescan_and_save config E w)
                           else (Inr (Delete_response result), w)))))"

subsection \<open>Notions used to state the properties\<close>

text \<open>A root that creation prefers and deletion accepts, by its directory name.\<close>

definition writable_name :: "path \<Rightarrow> bool" where
  "writable_name root \<longleftrightarrow> path_name root = ''.skills'' \<or> path_name root = ''skills''"

text \<open>
  A well-formed component in words: not empty, at most 64 characters, only lowercase
  letters, digits and hyphens, no hyphen first or last, no two hyphens side by side.
\<close>

definition valid_component :: "string \<Rightarrow> bool" where
  "valid_component c \<longleftrightarrow>
     c \<noteq> [] \<and> length c \<le> 64
     \<and> list_all (\<lambda>x. x \<in> set ''abcdefghijklmnopqrstuvwxyz'' \<or> x \<in> set ''0123456789'' \<or> x = CHR ''-'') c
     \<and> hd c \<noteq> CHR ''-'' \<and> last c \<noteq> CHR ''-''
     \<and> (CHR ''-'', CHR ''-'') \<notin> set (zip c (tl c))"

text \<open>
  The components of a path argument after splitting on the slash and dropping the
  components that hold nothing but whitespace; and the same components with the
  whitespace around each of them trimmed.
\<close>

definition kept_components :: "string \<Rightarrow> string list" where
  "kept_components p = filter (\<lambda>c. \<not> list_all is_space c) (split_char CHR ''/'' p)"

definition trimmed_components :: "string \<Rightarrow> string list" where
  "trimmed_components p = map strip (kept_components p)"



text \<open>
  Whether every step of a trace that changes the files, rescans or saves the index
  happens while the lock is held; the flag is the state of the lock before the trace.
\<close>

fun is_mutation_step :: "event \<Rightarrow> bool" where
  "is_mutation_step Called_create_skill = True"
| "is_mutation_step Called_delete_skill = True"
| "is_mutation_step (Called_update_tags_in_skill_md _) = True"
| "is_mutation_step Called_scan_skills = True"
| "is_mutation_step Called_save_index = True"
| "is_mutation_step _ = False"

fun guarded :: "bool \<Rightarrow> event list \<Rightarrow> bool" where
  "guarded held [] = True"
| "guarded held (Lock_acquired # es) = guarded True es"
| "guarded held (Lock_released # es) = guarded False es"
| "guarded held (e # es) = ((is_mutation_step e \<longrightarrow> held) \<and> guarded held es)"

fun is_lock_event :: "event \<Rightarrow> bool" where
  "is_lock_event Lock_acquired = True"
| "is_lock_event Lock_released = True"
| "is_lock_event _ = False"

text \<open>
  The events that a call adds to the trace; and the shape of the events of a call that
  takes the lock once, does nothing under it but load, scan and save, releases it, and
  does \<open>post\<close> after the release.
\<close>

definition new_events :: "world \<Rightarrow> world \<Rightarrow> event list" where
  "new_events w w' = drop (length (w_trace w)) (w_trace w')"

definition released_before :: "event list \<Rightarrow> event list \<Rightarrow> bool" where
  "released_before es post \<longleftrightarrow>
     (\<exists>pre. es = Lock_acquired # pre @ Lock_released # post
        \<and> set pre \<subseteq> {Called_load_tags_registry, Called_load_index, Called_scan_skills,
                      Called_save_index}
        \<and> (\<forall>e\<in>set post. \<not> is_lock_event e))"

text \<open>
  An update that reached the rewriting of its skill file; and a mode argument that
  selects the applying of updates.
\<close>

fun rewrites_file :: "update_result \<Rightarrow> bool" where
  "rewrites_file (Tags_written _ _) = True"
| "rewrites_file (Write_failed _ _) = True"
| "rewrites_file _ = False"

definition apply_mode :: "string option \<Rightarrow> bool" where
  "apply_mode mode \<longleftrightarrow> (case mode of None \<Rightarrow> False | Some m \<Rightarrow> lower (strip m) = ''apply'')"

subsection \<open>Concrete inputs\<close>

text \<open>
  Modelled from the spec: \<^verbatim>\<open>normalize_tags\<close> of \<^verbatim>\<open>skill_cortex/frontmatter.py\<close> is
  not part of the sources at hand. Section 4.1 of the specification: it trims
  whitespace, lower-cases, collapses to hyphen-separated tokens, drops empty entries,
  removes duplicates while preserving first-seen order. It is used for concrete
  inputs only; every general statement below holds for any function in its place.
\<close>

fun tokens_from :: "string \<Rightarrow> string \<Rightarrow> string list" where
  "tokens_from cur [] = (if cur = [] then [] else [cur])"
| "tokens_from cur (c # cs) =
     (if is_space c then (if cur = [] then tokens_from [] cs else cur # tokens_from [] cs)
      else tokens_from (cur @ [c]) cs)"

fun first_seen :: "string list \<Rightarrow> string list \<Rightarrow> string list" where
  "first_seen seen [] = []"
| "first_seen seen (t # ts) =
     (if t \<in> set seen then first_seen seen ts else t # first_seen (t # seen) ts)"

definition normalize_tags_spec :: "string list \<Rightarrow> string list" where
  "normalize_tags_spec ts =
     first_seen [] (filter (\<lambda>t. t \<noteq> []) (map (\<lambda>t. join ''-'' (tokens_from [] (lower (strip t)))) ts))"

definition demo_root :: path where
  "demo_root = [''home'', ''skills'']"

definition demo_config :: AppConfig where
  "demo_config = \<lparr>cfg_roots = [demo_root], cfg_cache_path = [''home'', ''cache''],
                  cfg_tags_path = [''home'', ''tags'']\<rparr>"

definition demo_md :: path where
  "demo_md = demo_root @ [''demo'', ''SKILL.md'']"

text \<open>A tree with the root directory and one skill in it.\<close>

definition demo_fs :: filesystem where
  "demo_fs = map_of
     [([], Dir), ([''home''], Dir), (demo_root, Dir), (demo_root @ [''demo''], Dir),
      (demo_md, File (''---'' @ nl @ ''name: demo'' @ nl @ ''---'' @ nl))]"

text \<open>
  A tree where the directory of a skill to be is there already and holds a regular
  file named \<^verbatim>\<open>scripts\<close>, and no skill file.
\<close>

definition blocked_fs :: filesystem where
  "blocked_fs = map_of
     [([], Dir), ([''home''], Dir), (demo_root, Dir), (demo_root @ [''demo''], Dir),
      (demo_root @ [''demo'', ''scripts''], File ''notes'')]"

definition demo_record :: SkillRecord where
  "demo_record =
     \<lparr>skill_id = ''demo'', skill_path = demo_md,
      frontmatter = \<lparr>fm_title = ''demo'', fm_description = [], fm_tags = [],
                     fm_license = None, fm_metadata = None\<rparr>,
      description_snapshot = [], tag_issues = [], category_path = []\<rparr>"

definition demo_scan :: ScanResult where
  "demo_scan =
     \<lparr>scan_tree = TreeNode [(''writing'', TreeNode [] []), (''coding'', TreeNode [] [])] [demo_record],
      scan_skills_list = [demo_record]\<rparr>"

text \<open>
  An environment for the concrete inputs: no tag registry file (an empty allowed set),
  no cache, a scanner that finds the index above, and a cache file at the cache path.
\<close>

definition demo_load_tags_registry :: "filesystem \<Rightarrow> path \<Rightarrow> TagsRegistry" where
  "demo_load_tags_registry fs p = \<lparr>allowed_tags = {}\<rparr>"

definition demo_load_index :: "filesystem \<Rightarrow> path \<Rightarrow> ScanResult option" where
  "demo_load_index fs p = None"

definition demo_scan_skills :: "filesystem \<Rightarrow> path list \<Rightarrow> TagsRegistry option \<Rightarrow> ScanResult" where
  "demo_scan_skills fs rs reg = demo_scan"

definition demo_save_index :: "filesystem \<Rightarrow> path \<Rightarrow> ScanResult \<Rightarrow> filesystem" where
  "demo_save_index fs p sc = fs(p \<mapsto> File ''index'')"

definition demo_env :: env where
  "demo_env =
     \<lparr>normalize_tags = normalize_tags_spec,
      load_tags_registry = demo_load_tags_registry,
      load_index = demo_load_index,
      scan_skills = demo_scan_skills,
      save_index = demo_save_index\<rparr>"

text \<open>A server whose state is loaded (with an empty allowed set), and one just started.\<close>

definition loaded_world :: "filesystem \<Rightarrow> world" where
  "loaded_world f =
     \<lparr>w_fs = f, st_registry = Some \<lparr>allowed_tags = {}\<rparr>, st_scan = Some demo_scan, w_trace = []\<rparr>"

definition fresh_world :: "filesystem \<Rightarrow> world" where
  "fresh_world f = \<lparr>w_fs = f, st_registry = None, st_scan = None, w_trace = []\<rparr>"

text \<open>A server whose state is loaded with a registry that allows one tag.\<close>

definition tagged_world :: "filesystem \<Rightarrow> world" where
  "tagged_world f =
     \<lparr>w_fs = f, st_registry = Some \<lparr>allowed_tags = {''python''}\<rparr>, st_scan = Some demo_scan,
      w_trace = []\<rparr>"





text \<open>A skill file whose frontmatter is opened and never closed.\<close>

definition unterminated_text :: string where
  "unterminated_text = ''---'' @ nl @ ''name: demo'' @ nl @ ''tags: [a]'' @ nl"

definition unterminated_fs :: filesystem where
  "unterminated_fs = map_of
     [([], Dir), ([''home''], Dir), (demo_root, Dir), (demo_root @ [''demo''], Dir),
      (demo_md, File unterminated_text)]"

section \<open>Properties\<close>

subsection \<open>Facts about the concrete inputs\<close>

lemma demo_md_exists: "exists demo_fs demo_md"
  by (simp add: exists_def demo_fs_def demo_md_def demo_root_def)

lemma demo_md_deletable: "is_deletable_skill demo_md [demo_root] = (True, [])"
  by (simp add: demo_md_def demo_root_def relative_to_def path_name_def)

subsection \<open>Deleting without confirmation\<close>

text \<open>
  C9. For every existing, deletable skill, \<^verbatim>\<open>delete_skill\<close> called with
  \<^verbatim>\<open>confirm=false\<close> deletes nothing: it returns the preview (ok false, error
  \<^verbatim>\<open>confirmation_required\<close>) that carries the skill path and its directory, and the
  file system is the one it was given.
\<close>

theorem delete_skill_unconfirmed_is_preview:
  assumes "exists f sp" and "fst (is_deletable_skill sp rs)"
  shows "delete_skill sp rs False f = (Confirmation_required sp (parent sp), f)
         \<and> \<not> delete_ok (fst (delete_skill sp rs False f))
         \<and> delete_error (fst (delete_skill sp rs False f)) = Some ''confirmation_required''"
proof (cases "is_deletable_skill sp rs")
  case (Pair deletable reason)
  with assms show ?thesis
    by (simp add: delete_skill_def)
qed

theorem delete_skill_unconfirmed_is_preview_witness:
  "exists demo_fs demo_md \<and> fst (is_deletable_skill demo_md [demo_root])
   \<and> delete_skill demo_md [demo_root] False demo_fs
       = (Confirmation_required demo_md (parent demo_md), demo_fs)"
  using delete_skill_unconfirmed_is_preview [of demo_fs demo_md "[demo_root]"]
    demo_md_exists demo_md_deletable
  by simp

subsection \<open>Parsing a skill path\<close>

lemma dropWhile_all_Nil:
  assumes "\<forall>x\<in>set (dropWhile P xs). P x"
  shows "dropWhile P xs = []"
proof (rule ccontr)
  assume ne: "dropWhile P xs \<noteq> []"
  then have "\<not> P (hd (dropWhile P xs))" by (rule hd_dropWhile)
  moreover from ne have "hd (dropWhile P xs) \<in> set (dropWhile P xs)" by simp
  ultimately show False using assms by blast
qed

lemma strip_Nil_iff: "strip s = [] \<longleftrightarrow> list_all is_space s"
proof
  assume "strip s = []"
  then have "\<forall>x\<in>set (dropWhile is_space s). is_space x"
    by (simp add: strip_def rstrip_def lstrip_def dropWhile_eq_Nil_conv)
  then have "dropWhile is_space s = []"
    by (rule dropWhile_all_Nil)
  then show "list_all is_space s"
    by (simp add: dropWhile_eq_Nil_conv list_all_iff)
next
  assume "list_all is_space s"
  then have "dropWhile is_space s = []"
    by (auto simp: list_all_iff dest: set_dropWhileD)
  then show "strip s = []"
    by (simp add: strip_def rstrip_def lstrip_def del: dropWhile_eq_Nil_conv)
qed

lemma path_parts_trimmed: "path_parts p = trimmed_components p"
  by (simp add: path_parts_def trimmed_components_def kept_components_def strip_Nil_iff)

lemma strip_last_not_space: "strip s \<noteq> [] \<Longrightarrow> \<not> is_space (last (strip s))"
proof -
  assume ne: "strip s \<noteq> []"
  let ?d = "dropWhile is_space (rev (lstrip s))"
  from ne have "?d \<noteq> []" by (simp add: strip_def rstrip_def)
  then have "\<not> is_space (hd ?d)" by (rule hd_dropWhile)
  moreover have "last (strip s) = hd ?d"
    using \<open>?d \<noteq> []\<close> by (simp add: strip_def rstrip_def last_rev)
  ultimately show ?thesis by simp
qed

lemma startswith_hyphen: "startswith p ''-'' \<longleftrightarrow> p \<noteq> [] \<and> hd p = CHR ''-''"
  by (cases p) (auto simp: startswith_def)

lemma endswith_hyphen: "endswith p ''-'' \<longleftrightarrow> p \<noteq> [] \<and> last p = CHR ''-''"
  by (cases p rule: rev_cases) (auto simp: endswith_def suffix_def)

lemma str_contains_hyphens:
  "str_contains ''--'' p \<longleftrightarrow> (CHR ''-'', CHR ''-'') \<in> set (zip p (tl p))"
proof (induction p)
  case Nil
  then show ?case by simp
next
  case (Cons c cs)
  then show ?case by (cases cs) auto
qed

lemma name_char_words:
  "name_char x \<longleftrightarrow> x \<in> set ''abcdefghijklmnopqrstuvwxyz'' \<or> x \<in> set ''0123456789'' \<or> x = CHR ''-''"
  by (auto simp: name_char_def)

lemma validate_iff_valid_component:
  assumes "p \<noteq> [] \<Longrightarrow> \<not> is_space (last p)"
  shows "fst (validate_skill_name_part p) \<longleftrightarrow> valid_component p"
proof (cases "p = []")
  case True
  then show ?thesis by (simp add: validate_skill_name_part_def valid_component_def)
next
  case False
  with assms have "last p \<noteq> CHR 0x0A" by (auto simp: is_space_def)
  with False have re: "re_match_name p \<longleftrightarrow> list_all name_char p"
    by (simp add: re_match_name_def)
  show ?thesis
    using False
    by (simp add: validate_skill_name_part_def valid_component_def re startswith_hyphen
        endswith_hyphen str_contains_hyphens name_char_words [abs_def] not_less)
qed

lemma validate_parts_None_iff:
  "validate_parts ps = None \<longleftrightarrow> list_all (\<lambda>p. fst (validate_skill_name_part p)) ps"
  by (induction ps) (auto split: prod.splits bool.splits)

lemma trimmed_components_last: "c \<in> set (trimmed_components p) \<Longrightarrow> c \<noteq> [] \<and> \<not> is_space (last c)"
  by (auto simp: trimmed_components_def kept_components_def strip_Nil_iff [symmetric]
      strip_last_not_space)

lemma validate_parts_trimmed:
  "validate_parts (trimmed_components p) = None \<longleftrightarrow> list_all valid_component (trimmed_components p)"
proof -
  have "list_all (\<lambda>c. fst (validate_skill_name_part c)) (trimmed_components p)
        \<longleftrightarrow> list_all valid_component (trimmed_components p)"
    unfolding list_all_iff
    using validate_iff_valid_component trimmed_components_last by blast
  then show ?thesis by (simp add: validate_parts_None_iff)
qed

text \<open>
  C10, as amended. \<^verbatim>\<open>parse_skill_path\<close> accepts a path if and only if, after
  splitting on the slash, dropping the components that hold nothing but whitespace and
  trimming the whitespace around each remaining component, at least one component
  remains and every component is a non-empty string of at most 64 characters drawn from
  lowercase letters, digits and hyphens, with no leading, trailing or consecutive
  hyphens; on success the last trimmed component is the skill name and the trimmed
  components before it, in order, are the category path.
\<close>

theorem parse_skill_path_accepts_iff:
  "(snd (snd (parse_skill_path p)) = None
      \<longleftrightarrow> trimmed_components p \<noteq> [] \<and> list_all valid_component (trimmed_components p))
   \<and> (snd (snd (parse_skill_path p)) = None
      \<longrightarrow> parse_skill_path p = (butlast (trimmed_components p), last (trimmed_components p), None))"
proof (cases "p = []")
  case True
  then show ?thesis
    by (simp add: parse_skill_path_def trimmed_components_def kept_components_def)
next
  case False
  then show ?thesis
    using validate_parts_trimmed [of p]
    by (auto simp: parse_skill_path_def path_parts_trimmed Let_def split: option.splits)
qed


lemma trimmed_demo: "trimmed_components ''coding / py-3'' = [''coding'', ''py-3'']"
  by (simp add: trimmed_components_def kept_components_def strip_def lstrip_def rstrip_def
      is_space_def)

lemma valid_demo: "list_all valid_component [''coding'', ''py-3'']"
  by (simp add: valid_component_def)

text \<open>
  The statement above at the path \<^verbatim>\<open>coding / py-3\<close>, whose components are trimmed.
\<close>

theorem parse_skill_path_accepts_iff_witness:
  "trimmed_components ''coding / py-3'' \<noteq> []
   \<and> list_all valid_component (trimmed_components ''coding / py-3'')
   \<and> parse_skill_path ''coding / py-3'' = ([''coding''], ''py-3'', None)"
  using parse_skill_path_accepts_iff [of "''coding / py-3''"] valid_demo
  by (simp add: trimmed_demo)

text \<open>
  C10 as stated speaks of the components as split and kept, not trimmed. The path
  that is a space followed by \<^verbatim>\<open>a\<close> is accepted, with skill name \<^verbatim>\<open>a\<close>, although its
  one component starts with a space and so is not drawn from the allowed characters.
\<close>

theorem parse_skill_path_untrimmed_counterexample:
  "parse_skill_path '' a'' = ([], ''a'', None)
   \<and> kept_components '' a'' = ['' a'']
   \<and> \<not> list_all valid_component (kept_components '' a'')"
  by (simp add: parse_skill_path_def path_parts_def kept_components_def strip_def lstrip_def
      rstrip_def is_space_def validate_skill_name_part_def re_match_name_def name_char_def
      startswith_def endswith_def valid_component_def suffix_def)

subsection \<open>Creating a skill: validation and the target root\<close>

lemma validate_parts_message: "validate_parts ps = Some m \<Longrightarrow> m \<noteq> []"
  by (induction ps) (auto split: prod.splits bool.splits)

lemma parse_error_not_empty: "snd (snd (parse_skill_path p)) \<noteq> Some []"
  by (auto simp: parse_skill_path_def Let_def split: option.splits dest: validate_parts_message)

lemma create_skill_invalid_path:
  assumes "snd (snd (parse_skill_path p)) = Some m"
  shows "create_skill norm rs p desc tags instr lic meta a b c f
           = (Create_failed ''invalid_path'' (Msg m), f)"
proof -
  from assms parse_error_not_empty [of p] have "m \<noteq> []" by auto
  with assms show ?thesis
    by (cases "parse_skill_path p") (simp add: create_skill_def)
qed

lemma create_skill_invalid_description:
  assumes "snd (snd (parse_skill_path p)) = None" and "desc = [] \<or> length desc > 1024"
  shows "create_skill norm rs p desc tags instr lic meta a b c f
           = (Create_failed ''invalid_description'' (Msg ''Description must be 1-1024 characters''), f)"
  using assms by (cases "parse_skill_path p") (auto simp: create_skill_def)

lemma create_skill_validated:
  assumes "snd (snd (parse_skill_path p)) = None" and "desc \<noteq> []" and "length desc \<le> 1024"
  shows "create_skill norm rs p desc tags instr lic meta a b c f
           = (case select_target_root rs of
                None \<Rightarrow> (Create_failed ''no_root'' (Msg ''No skill root directory configured''), f)
              | Some target \<Rightarrow>
                  create_skill_at target (fst (parse_skill_path p)) (fst (snd (parse_skill_path p)))
                    desc (norm (case tags of None \<Rightarrow> [] | Some ts \<Rightarrow> ts)) instr lic meta a b c f)"
  using assms by (cases "parse_skill_path p") (auto simp: create_skill_def Let_def split: option.splits)

text \<open>
  C5, as amended. A call of \<^verbatim>\<open>create_skill\<close> with an empty description returns ok
  false and writes nothing to the file system; the error is \<^verbatim>\<open>invalid_description\<close>
  when the path is valid and \<^verbatim>\<open>invalid_path\<close> when it is not, because the path is
  checked first. So every skill that the creation flow authors (every call that
  returns ok) has a non-empty description.
\<close>

theorem create_skill_empty_description:
  "snd (create_skill norm rs p [] tags instr lic meta a b c f) = f
   \<and> \<not> create_ok (fst (create_skill norm rs p [] tags instr lic meta a b c f))
   \<and> create_error (fst (create_skill norm rs p [] tags instr lic meta a b c f))
       = Some (if snd (snd (parse_skill_path p)) = None then ''invalid_description''
               else ''invalid_path'')
   \<and> (create_ok (fst (create_skill norm rs p desc tags instr lic meta a b c f)) \<longrightarrow> desc \<noteq> [])"
proof (cases "snd (snd (parse_skill_path p))")
  case None
  then show ?thesis
    by (auto simp: create_skill_invalid_description)
next
  case (Some m)
  then show ?thesis
    by (simp add: create_skill_invalid_path)
qed


lemma parse_demo: "parse_skill_path ''demo'' = ([], ''demo'', None)"
  by (simp add: parse_skill_path_def path_parts_def strip_def lstrip_def rstrip_def is_space_def
      validate_skill_name_part_def re_match_name_def name_char_def startswith_def endswith_def
      suffix_def)

lemma parse_bad: "snd (snd (parse_skill_path ''My_Skill'')) \<noteq> None"
  by (simp add: parse_skill_path_def path_parts_def strip_def lstrip_def rstrip_def is_space_def
      validate_skill_name_part_def re_match_name_def name_char_def)

text \<open>
  The statement above at a valid and at an invalid path, both with an empty description.
\<close>

theorem create_skill_empty_description_witness:
  "snd (create_skill normalize_tags_spec [demo_root] ''demo'' [] None None None None
          False False False demo_fs) = demo_fs
   \<and> create_error (fst (create_skill normalize_tags_spec [demo_root] ''demo'' [] None None None
          None False False False demo_fs)) = Some ''invalid_description''
   \<and> create_error (fst (create_skill normalize_tags_spec [demo_root] ''My_Skill'' [] None None
          None None False False False demo_fs)) = Some ''invalid_path''"
  using create_skill_empty_description [of normalize_tags_spec "[demo_root]" "''demo''" None None
      None None False False False demo_fs]
    create_skill_empty_description [of normalize_tags_spec "[demo_root]" "''My_Skill''" None None
      None None False False False demo_fs]
    parse_bad
  by (simp add: parse_demo)

text \<open>
  C5 as stated promises \<^verbatim>\<open>invalid_description\<close> for every call with an empty
  description. With the path \<^verbatim>\<open>My_Skill\<close>, which is not a valid name, the error is
  \<^verbatim>\<open>invalid_path\<close>.
\<close>

theorem create_skill_empty_description_counterexample:
  "create_error (fst (create_skill normalize_tags_spec [demo_root] ''My_Skill'' [] None None
          None None False False False demo_fs)) = Some ''invalid_path''
   \<and> create_error (fst (create_skill normalize_tags_spec [demo_root] ''My_Skill'' [] None None
          None None False False False demo_fs)) \<noteq> Some ''invalid_description''"
proof -
  obtain m where "snd (snd (parse_skill_path ''My_Skill'')) = Some m"
    using parse_bad by auto
  then show ?thesis
    by (simp add: create_skill_invalid_path)
qed

lemma find_writable_root_None:
  "find_writable_root rs = None \<longleftrightarrow> (\<forall>r\<in>set rs. \<not> writable_name r)"
  by (induction rs) (auto simp: writable_name_def)

lemma find_writable_root_first:
  assumes "i < length rs" and "writable_name (rs ! i)" and "\<forall>j<i. \<not> writable_name (rs ! j)"
  shows "find_writable_root rs = Some (rs ! i)"
  using assms
proof (induction rs arbitrary: i)
  case Nil
  then show ?case by simp
next
  case (Cons r rs)
  show ?case
  proof (cases i)
    case 0
    with Cons.prems show ?thesis by (simp add: writable_name_def)
  next
    case (Suc k)
    with Cons.prems have "\<not> writable_name r" by auto
    moreover from Suc Cons.prems have "find_writable_root rs = Some (rs ! k)"
      by (intro Cons.IH) auto
    ultimately show ?thesis using Suc by (simp add: writable_name_def)
  qed
qed

lemma select_target_root_cases:
  "(rs = [] \<longrightarrow> select_target_root rs = None)
   \<and> (\<forall>i<length rs. writable_name (rs ! i) \<and> (\<forall>j<i. \<not> writable_name (rs ! j))
        \<longrightarrow> select_target_root rs = Some (rs ! i))
   \<and> (rs \<noteq> [] \<and> (\<forall>r\<in>set rs. \<not> writable_name r) \<longrightarrow> select_target_root rs = Some (hd rs))"
  by (auto simp: select_target_root_def find_writable_root_first find_writable_root_None)

text \<open>
  C7, as amended. For every call whose path and description pass validation,
  \<^verbatim>\<open>create_skill\<close> creates the skill under the first root of the ordered root list
  whose directory name is \<^verbatim>\<open>.skills\<close> or \<^verbatim>\<open>skills\<close>; if there is no such root, under
  the first root of the list; and if the list is empty it fails with error
  \<^verbatim>\<open>no_root\<close> and leaves the file system as it was.
\<close>

theorem create_skill_target_root:
  assumes "snd (snd (parse_skill_path p)) = None" and "desc \<noteq> []" and "length desc \<le> 1024"
  shows "(rs = [] \<longrightarrow>
            create_skill norm rs p desc tags instr lic meta a b c f
              = (Create_failed ''no_root'' (Msg ''No skill root directory configured''), f))
       \<and> (\<forall>i<length rs. writable_name (rs ! i) \<and> (\<forall>j<i. \<not> writable_name (rs ! j)) \<longrightarrow>
            create_skill norm rs p desc tags instr lic meta a b c f
              = create_skill_at (rs ! i) (fst (parse_skill_path p)) (fst (snd (parse_skill_path p)))
                  desc (norm (case tags of None \<Rightarrow> [] | Some ts \<Rightarrow> ts)) instr lic meta a b c f)
       \<and> (rs \<noteq> [] \<and> (\<forall>r\<in>set rs. \<not> writable_name r) \<longrightarrow>
            create_skill norm rs p desc tags instr lic meta a b c f
              = create_skill_at (hd rs) (fst (parse_skill_path p)) (fst (snd (parse_skill_path p)))
                  desc (norm (case tags of None \<Rightarrow> [] | Some ts \<Rightarrow> ts)) instr lic meta a b c f)"
  using select_target_root_cases [of rs]
  by (simp add: create_skill_validated [OF assms])


lemma desc_demo: "''A demo'' \<noteq> [] \<and> length ''A demo'' \<le> 1024"
  by simp

lemma parse_demo_ok: "snd (snd (parse_skill_path ''demo'')) = None"
  by (simp add: parse_demo)

text \<open>
  The statement above at a valid path and description: with no root, with a preferred
  root in second place, and with two roots neither of which has a preferred name.
\<close>

theorem create_skill_target_root_witness:
  "snd (snd (parse_skill_path ''demo'')) = None \<and> ''A demo'' \<noteq> [] \<and> length ''A demo'' \<le> 1024
   \<and> create_skill normalize_tags_spec [] ''demo'' ''A demo'' None None None None
        False False False demo_fs
       = (Create_failed ''no_root'' (Msg ''No skill root directory configured''), demo_fs)
   \<and> create_skill normalize_tags_spec [[''home'', ''data''], demo_root] ''demo'' ''A demo'' None
        None None None False False False demo_fs
       = create_skill_at demo_root [] ''demo'' ''A demo'' (normalize_tags_spec []) None None None
           False False False demo_fs
   \<and> create_skill normalize_tags_spec [[''home'', ''data''], [''home'', ''more'']] ''demo''
        ''A demo'' None None None None False False False demo_fs
       = create_skill_at [''home'', ''data''] [] ''demo'' ''A demo'' (normalize_tags_spec []) None
           None None False False False demo_fs"
proof -
  have h1: "snd (snd (parse_skill_path ''demo'')) = None" by (rule parse_demo_ok)
  have h2: "''A demo'' \<noteq> []" by simp
  have h3: "length ''A demo'' \<le> 1024" by simp
  note t = create_skill_target_root [OF h1 h2 h3, of _ normalize_tags_spec None None None None
      False False False demo_fs]
  have w: "writable_name demo_root" "\<not> writable_name [''home'', ''data'']"
    "\<not> writable_name [''home'', ''more'']"
    by (simp_all add: writable_name_def path_name_def demo_root_def)
  have a: "create_skill normalize_tags_spec [] ''demo'' ''A demo'' None None None None
        False False False demo_fs
       = (Create_failed ''no_root'' (Msg ''No skill root directory configured''), demo_fs)"
    using t [of "[]"] by simp
  have "\<forall>i<length [[''home'', ''data''], demo_root].
          writable_name ([[''home'', ''data''], demo_root] ! i)
          \<and> (\<forall>j<i. \<not> writable_name ([[''home'', ''data''], demo_root] ! j)) \<longrightarrow>
          create_skill normalize_tags_spec [[''home'', ''data''], demo_root] ''demo'' ''A demo''
            None None None None False False False demo_fs
          = create_skill_at ([[''home'', ''data''], demo_root] ! i) (fst (parse_skill_path ''demo''))
              (fst (snd (parse_skill_path ''demo''))) ''A demo''
              (normalize_tags_spec (case None of None \<Rightarrow> [] | Some ts \<Rightarrow> ts)) None None None
              False False False demo_fs"
    using t [of "[[''home'', ''data''], demo_root]"] by blast
  from this [rule_format, of 1] w
  have b: "create_skill normalize_tags_spec [[''home'', ''data''], demo_root] ''demo'' ''A demo''
        None None None None False False False demo_fs
       = create_skill_at demo_root [] ''demo'' ''A demo'' (normalize_tags_spec []) None None None
           False False False demo_fs"
    by (simp add: parse_demo)
  have c: "create_skill normalize_tags_spec [[''home'', ''data''], [''home'', ''more'']] ''demo''
        ''A demo'' None None None None False False False demo_fs
       = create_skill_at [''home'', ''data''] [] ''demo'' ''A demo'' (normalize_tags_spec []) None
           None None False False False demo_fs"
    using t [of "[[''home'', ''data''], [''home'', ''more'']]"] w by (simp add: parse_demo)
  from h1 h2 h3 a b c show ?thesis by blast
qed

text \<open>
  C7 as stated promises \<^verbatim>\<open>no_root\<close> whenever the root list is empty. With an empty
  root list and the invalid path \<^verbatim>\<open>My_Skill\<close> the error is \<^verbatim>\<open>invalid_path\<close>: the
  roots are looked at only after the path and the description are validated.
\<close>

theorem create_skill_no_root_counterexample:
  "create_error (fst (create_skill normalize_tags_spec [] ''My_Skill'' ''A demo'' None None
          None None False False False demo_fs)) = Some ''invalid_path''
   \<and> create_error (fst (create_skill normalize_tags_spec [] ''My_Skill'' ''A demo'' None None
          None None False False False demo_fs)) \<noteq> Some ''no_root''"
proof -
  obtain m where "snd (snd (parse_skill_path ''My_Skill'')) = Some m"
    using parse_bad by auto
  then show ?thesis
    by (simp add: create_skill_invalid_path)
qed

lemma create_skill_at_creates_under_target:
  assumes "create_skill_at t cat n desc tags instr lic meta a b c f = (Create_ok md dir n' cat', f')"
  shows "dir = t @ cat @ [n] \<and> md = t @ cat @ [n, ''SKILL.md''] \<and> n' = n \<and> cat' = cat"
  using assms
  by (auto simp: create_skill_at_def Let_def split: if_splits sum.splits prod.splits option.splits)

subsection \<open>Refusals: deletion outside the writable roots, unterminated frontmatter\<close>











lemma find_end_index_None:
  "find_end_index i ls = None \<longleftrightarrow> (\<forall>l\<in>set ls. strip l \<noteq> ''---'')"
  by (induction ls arbitrary: i) auto

text \<open>
  C4. For every skill file whose first line is the opening frontmatter delimiter and
  none of whose later lines is a closing delimiter, \<^verbatim>\<open>_update_tags_in_skill_md\<close>
  raises ValueError \<^verbatim>\<open>unterminated_frontmatter\<close> and leaves the file system, and with
  it the content of the file, as it was.
\<close>

theorem update_tags_unterminated_frontmatter:
  assumes "f p = Some (File content)"
    and "splitlines_keepends content = first # rest"
    and "strip first = ''---''"
    and "\<forall>l\<in>set rest. strip l \<noteq> ''---''"
  shows "update_tags_in_skill_md p new_tags f = (Some (ValueError ''unterminated_frontmatter''), f)"
proof -
  from assms(4) have "find_end_index 1 rest = None"
    by (simp add: find_end_index_None)
  with assms(1-3) show ?thesis
    by (simp add: update_tags_in_skill_md_def read_text_def)
qed


lemma unterminated_lines:
  "splitlines_keepends unterminated_text = (''---'' @ nl) # [''name: demo'' @ nl, ''tags: [a]'' @ nl]"
  by (simp add: splitlines_keepends_def unterminated_text_def nl_def is_linebreak_def)

lemma unterminated_open: "strip (''---'' @ nl) = ''---''"
  by (simp add: strip_def lstrip_def rstrip_def nl_def is_space_def)

lemma unterminated_rest: "\<forall>l\<in>set [''name: demo'' @ nl, ''tags: [a]'' @ nl]. strip l \<noteq> ''---''"
  by (simp add: strip_def lstrip_def rstrip_def nl_def is_space_def)

lemma unterminated_file: "unterminated_fs demo_md = Some (File unterminated_text)"
  by (simp add: unterminated_fs_def demo_md_def demo_root_def)

text \<open>
  The statement above at a file of three lines, the first of which opens the frontmatter.
\<close>

theorem update_tags_unterminated_frontmatter_witness:
  "unterminated_fs demo_md = Some (File unterminated_text)
   \<and> splitlines_keepends unterminated_text = (''---'' @ nl) # [''name: demo'' @ nl, ''tags: [a]'' @ nl]
   \<and> strip (''---'' @ nl) = ''---''
   \<and> strip (''name: demo'' @ nl) \<noteq> ''---''
   \<and> strip (''tags: [a]'' @ nl) \<noteq> ''---''
   \<and> update_tags_in_skill_md demo_md [''b''] unterminated_fs
       = (Some (ValueError ''unterminated_frontmatter''), unterminated_fs)"
proof -
  have "strip (''name: demo'' @ nl) \<noteq> ''---''" and "strip (''tags: [a]'' @ nl) \<noteq> ''---''"
    using unterminated_rest by auto
  moreover have "update_tags_in_skill_md demo_md [''b''] unterminated_fs
       = (Some (ValueError ''unterminated_frontmatter''), unterminated_fs)"
    using update_tags_unterminated_frontmatter [of unterminated_fs demo_md unterminated_text
        "''---'' @ nl" "[''name: demo'' @ nl, ''tags: [a]'' @ nl]" "[''b'']"]
      unterminated_file unterminated_lines unterminated_open unterminated_rest
    by blast
  ultimately show ?thesis
    using unterminated_file unterminated_lines unterminated_open by blast
qed

subsection \<open>The tools: category listing and tag updates\<close>

lemma ensure_state_loaded_when_loaded:
  assumes "st_registry w = Some reg" and "st_scan w = Some sc"
  shows "ensure_state_loaded config E w = w\<lparr>w_trace := w_trace w @ [Lock_acquired, Lock_released]\<rparr>"
  using assms by (simp add: ensure_state_loaded_def emit_def)

lemma ensure_state_loaded_loads:
  "st_registry (ensure_state_loaded config E w) \<noteq> None
   \<and> st_scan (ensure_state_loaded config E w) \<noteq> None"
  by (auto simp: ensure_state_loaded_def emit_def Let_def split: option.splits prod.splits)

lemma lower_apply: "lower (strip ''apply'') = ''apply''"
  by (simp add: lower_def lower_char_def strip_def lstrip_def rstrip_def is_space_def)


lemma list_skill_tree_result:
  assumes "st_scan (ensure_state_loaded config E w) = Some sc"
    and "find_node (scan_tree sc) (parse_path_arg path) = Some node"
  shows "fst (list_skill_tree config E path w)
           = Inr (Tree_ok (parse_path_arg path) (sort (dict_keys (children node)))
                    (map summarize_skill (skills node)))"
  using assms by (simp add: list_skill_tree_def Let_def)

lemma sort_dict_keys:
  "sort (dict_keys d) = sorted_list_of_set (dom (map_of d))"
  by (simp add: dict_keys_def sorted_list_of_set_sort_remdups [symmetric]
      dom_map_of_conv_image_fst)

text \<open>
  C6. For every path argument that resolves to a node of the tree,
  \<^verbatim>\<open>list_skill_tree\<close> answers with the names of the child categories of that node in
  sorted order, each once; the list is a function of the children mapping alone (the
  sorted list of its domain), whatever the order in which the children are stored.
\<close>

theorem list_skill_tree_categories_sorted:
  assumes "st_scan (ensure_state_loaded config E w) = Some sc"
    and "find_node (scan_tree sc) (parse_path_arg path) = Some node"
  shows "\<exists>r. fst (list_skill_tree config E path w) = Inr r
           \<and> resp_path r = parse_path_arg path
           \<and> categories r = sorted_list_of_set (dom (dict_get (children node)))
           \<and> sorted (categories r) \<and> distinct (categories r)
           \<and> set (categories r) = fst ` set (children node)"
proof -
  let ?r = "Tree_ok (parse_path_arg path) (sort (dict_keys (children node)))
              (map summarize_skill (skills node))"
  have "fst (list_skill_tree config E path w) = Inr ?r"
    using assms by (rule list_skill_tree_result)
  moreover have "categories ?r = sorted_list_of_set (dom (dict_get (children node)))"
    by (simp add: sort_dict_keys dict_get_def [abs_def])
  moreover have "set (categories ?r) = fst ` set (children node)"
    by (simp add: dict_keys_def)
  moreover have "sorted (categories ?r)" "distinct (categories ?r)"
    by (simp_all add: dict_keys_def)
  ultimately show ?thesis by (intro exI [of _ ?r]) simp
qed


lemma demo_categories:
  "sorted_list_of_set (dom (dict_get (children (scan_tree demo_scan)))) = [''coding'', ''writing'']"
  by (simp add: sort_dict_keys [symmetric] dict_get_def [abs_def] demo_scan_def dict_keys_def)

lemma demo_loaded_scan:
  "st_scan (ensure_state_loaded demo_config demo_env (loaded_world demo_fs)) = Some demo_scan"
  by (simp add: ensure_state_loaded_when_loaded [of _ "\<lparr>allowed_tags = {}\<rparr>" demo_scan]
      loaded_world_def)

lemma demo_find_root:
  "find_node (scan_tree demo_scan) (parse_path_arg None) = Some (scan_tree demo_scan)"
  by (simp add: parse_path_arg_def)

text \<open>
  The statement above at the root of an index whose children are stored as
  \<^verbatim>\<open>writing\<close>, \<^verbatim>\<open>coding\<close>: the answer lists \<^verbatim>\<open>coding\<close>, \<^verbatim>\<open>writing\<close>.
\<close>

theorem list_skill_tree_categories_sorted_witness:
  "st_scan (ensure_state_loaded demo_config demo_env (loaded_world demo_fs)) = Some demo_scan
   \<and> find_node (scan_tree demo_scan) (parse_path_arg None) = Some (scan_tree demo_scan)
   \<and> map fst (children (scan_tree demo_scan)) = [''writing'', ''coding'']
   \<and> (\<exists>r. fst (list_skill_tree demo_config demo_env None (loaded_world demo_fs)) = Inr r
          \<and> categories r = [''coding'', ''writing''])"
proof -
  from list_skill_tree_categories_sorted [OF demo_loaded_scan demo_find_root]
  obtain r where "fst (list_skill_tree demo_config demo_env None (loaded_world demo_fs)) = Inr r"
    and "categories r = sorted_list_of_set (dom (dict_get (children (scan_tree demo_scan))))"
    by blast
  then have "\<exists>r. fst (list_skill_tree demo_config demo_env None (loaded_world demo_fs)) = Inr r
          \<and> categories r = [''coding'', ''writing'']"
    by (simp add: demo_categories)
  moreover have "map fst (children (scan_tree demo_scan)) = [''writing'', ''coding'']"
    by (simp add: demo_scan_def)
  ultimately show ?thesis
    using demo_loaded_scan demo_find_root by blast
qed

lemma apply_update_empty_allowed:
  assumes "strip sid \<noteq> []" and "normalize_tags E ts \<noteq> []"
  shows "apply_update E {} known \<lparr>upd_skill_id = Some sid, upd_tags = Some ts\<rparr> w
           = (Invalid_tags (strip sid) (normalize_tags E ts), w)"
proof -
  from assms(2) have "filter (\<lambda>t. t \<notin> {}) (normalize_tags E ts) \<noteq> []" by simp
  with assms show ?thesis
    by (simp add: apply_update_def Let_def)
qed

lemma update_tags_empty_registry_rejects_all:
  assumes "st_registry w = Some reg" and "allowed_tags reg = {}" and "st_scan w = Some sc"
    and "strip sid \<noteq> []" and "normalize_tags E ts \<noteq> []"
  shows "fst (update_tags config E (Some ''apply'')
                (Some [\<lparr>upd_skill_id = Some sid, upd_tags = Some ts\<rparr>]) w)
           = Inr (Tags_applied [Invalid_tags (strip sid) (normalize_tags E ts)])"
  using assms
  by (simp add: update_tags_def ensure_state_loaded_when_loaded [of w reg sc] lower_apply
      apply_update_empty_allowed Let_def)

lemma normalize_python: "normalize_tags demo_env [''python''] = [''python'']"
  by (simp add: demo_env_def normalize_tags_spec_def strip_def lstrip_def rstrip_def is_space_def
      lower_def lower_char_def)

lemma strip_demo: "strip ''demo'' = ''demo''"
  by (simp add: strip_def lstrip_def rstrip_def is_space_def)

text \<open>
  C2 says that an empty allowed set switches the tag check off. The code does the
  opposite: with an empty allowed set, \<^verbatim>\<open>update_tags\<close> in apply mode rejects the
  update of skill \<^verbatim>\<open>demo\<close> to the tag \<^verbatim>\<open>python\<close> with error \<^verbatim>\<open>invalid_tags\<close>. The lemma
  before this one shows the same for every update with a skill id and a non-empty
  normalized tag list.
\<close>

theorem update_tags_empty_registry_rejects:
  "allowed_tags (the (st_registry (loaded_world demo_fs))) = {}
   \<and> normalize_tags demo_env [''python''] = [''python'']
   \<and> fst (update_tags demo_config demo_env (Some ''apply'')
            (Some [\<lparr>upd_skill_id = Some ''demo'', upd_tags = Some [''python'']\<rparr>])
            (loaded_world demo_fs))
       = Inr (Tags_applied [Invalid_tags ''demo'' [''python'']])"
  using update_tags_empty_registry_rejects_all [of "loaded_world demo_fs" "\<lparr>allowed_tags = {}\<rparr>"
      demo_scan "''demo''" demo_env "[''python'']" demo_config]
  by (simp add: normalize_python strip_demo loaded_world_def)

subsection \<open>The tools: creation that fails after the skill file is written\<close>

lemma blocked_mkdir:
  "mkdir_parents blocked_fs (demo_root @ [''demo'']) = Inr blocked_fs"
  by (simp add: mkdir_parents.simps os_mkdir_def blocked_fs_def demo_root_def is_dir_def)

lemma blocked_create_skill:
  "create_skill norm [demo_root] ''demo'' ''A demo'' None None None None True False False blocked_fs
     = (Create_failed ''mkdir_optional_failed''
          (Exc (FileExistsError (demo_root @ [''demo'', ''scripts'']))),
        blocked_fs(demo_md \<mapsto> File (generate_skill_markdown ''demo'' ''A demo'' (norm []) None None None)))"
proof -
  have p: "parse_skill_path ''demo'' = ([], ''demo'', None)"
    by (simp add: parse_skill_path_def path_parts_def strip_def lstrip_def rstrip_def is_space_def
      validate_skill_name_part_def re_match_name_def name_char_def startswith_def endswith_def
      suffix_def)
  have t: "select_target_root [demo_root] = Some demo_root"
    by (simp add: select_target_root_def demo_root_def path_name_def)
  have e: "\<not> exists blocked_fs (demo_root @ [''demo'', ''SKILL.md''])"
    by (simp add: exists_def blocked_fs_def demo_root_def)
  have w: "write_text blocked_fs (demo_root @ [''demo'', ''SKILL.md'']) content
             = Inr (blocked_fs(demo_md \<mapsto> File content))" for content
    by (simp add: write_text_def blocked_fs_def demo_root_def demo_md_def parent_def)
  have o: "mkdir_exist_ok (blocked_fs(demo_md \<mapsto> File content)) (demo_root @ [''demo'', ''scripts''])
             = Inl (FileExistsError (demo_root @ [''demo'', ''scripts'']))" for content
    by (simp add: mkdir_exist_ok_def os_mkdir_def blocked_fs_def demo_root_def demo_md_def is_dir_def)
  show ?thesis
    using e blocked_mkdir
    by (simp add: create_skill_def p t create_skill_at_def w o Let_def)
qed

text \<open>
  C3 says that a call of \<^verbatim>\<open>create_new_skill\<close> that writes a skill file rescans and
  resaves before it returns. Where the directory of the skill holds a regular file
  named \<^verbatim>\<open>scripts\<close> and the scripts directory is asked for, \<^verbatim>\<open>create_skill\<close> writes
  the skill file, fails on the optional directory and returns ok false; the skill file
  stays, and \<^verbatim>\<open>create_new_skill\<close> returns without a rescan or a resave.
\<close>

theorem create_new_skill_leaves_file_unindexed:
  "fst (create_new_skill demo_config demo_env ''demo'' ''A demo'' None None None None
          True False False (loaded_world blocked_fs))
     = Create_failed ''mkdir_optional_failed''
         (Exc (FileExistsError (demo_root @ [''demo'', ''scripts''])))
   \<and> w_fs (loaded_world blocked_fs) demo_md = None
   \<and> w_fs (snd (create_new_skill demo_config demo_env ''demo'' ''A demo'' None None None None
          True False False (loaded_world blocked_fs))) demo_md
       = Some (File (generate_skill_markdown ''demo'' ''A demo'' [] None None None))
   \<and> w_trace (snd (create_new_skill demo_config demo_env ''demo'' ''A demo'' None None None None
          True False False (loaded_world blocked_fs)))
       = [Lock_acquired, Lock_released, Called_create_skill]"
proof -
  have l: "ensure_state_loaded demo_config demo_env (loaded_world blocked_fs)
             = (loaded_world blocked_fs)\<lparr>w_trace := [Lock_acquired, Lock_released]\<rparr>"
    by (simp add: ensure_state_loaded_def emit_def loaded_world_def)
  have n: "normalize_tags demo_env [] = []"
    by (simp add: demo_env_def normalize_tags_spec_def)
  have b: "blocked_fs demo_md = None"
    by (simp add: blocked_fs_def demo_md_def demo_root_def)
  have c: "cfg_roots demo_config = [demo_root]"
    by (simp add: demo_config_def)
  have f: "w_fs ((loaded_world blocked_fs)\<lparr>w_trace := [Lock_acquired, Lock_released]\<rparr>) = blocked_fs"
    by (simp add: loaded_world_def)
  show ?thesis
    unfolding create_new_skill_def l Let_def c f n blocked_create_skill
    by (simp add: b emit_def loaded_world_def)
qed

subsection \<open>The tools: where the guard is held\<close>

lemma ensure_state_loaded_trace:
  "w_trace (ensure_state_loaded config E w) = w_trace w @ [Lock_acquired, Lock_released]
   \<or> w_trace (ensure_state_loaded config E w)
       = w_trace w @ [Lock_acquired, Called_load_tags_registry, Called_load_index, Lock_released]
   \<or> w_trace (ensure_state_loaded config E w)
       = w_trace w @ [Lock_acquired, Called_load_tags_registry, Called_load_index,
                      Called_scan_skills, Called_save_index, Lock_released]"
  by (auto simp: ensure_state_loaded_def emit_def Let_def split: option.splits prod.splits)

lemma ensure_state_loaded_released:
  "released_before (drop (length (w_trace w)) (w_trace (ensure_state_loaded config E w) @ post)) post
   \<longleftrightarrow> (\<forall>e\<in>set post. \<not> is_lock_event e)"
proof -
  consider
    (a) "w_trace (ensure_state_loaded config E w) = w_trace w @ [Lock_acquired, Lock_released]"
  | (b) "w_trace (ensure_state_loaded config E w)
       = w_trace w @ [Lock_acquired, Called_load_tags_registry, Called_load_index, Lock_released]"
  | (c) "w_trace (ensure_state_loaded config E w)
       = w_trace w @ [Lock_acquired, Called_load_tags_registry, Called_load_index,
                      Called_scan_skills, Called_save_index, Lock_released]"
    using ensure_state_loaded_trace by blast
  then show ?thesis
  proof cases
    case a
    then show ?thesis
      by (auto simp: released_before_def intro: exI [of _ "[]"])
  next
    case b
    then show ?thesis
      by (auto simp: released_before_def
          intro: exI [of _ "[Called_load_tags_registry, Called_load_index]"])
  next
    case c
    then show ?thesis
      by (auto simp: released_before_def
          intro: exI [of _ "[Called_load_tags_registry, Called_load_index,
                      Called_scan_skills, Called_save_index]"])
  qed
qed

lemma rescan_and_save_trace:
  "w_trace (rescan_and_save config E w) = w_trace w @ [Called_scan_skills, Called_save_index]"
  by (simp add: rescan_and_save_def emit_def Let_def)

lemma create_new_skill_trace:
  "w_trace (snd (create_new_skill config E p desc tags instr lic meta a b c w))
     = w_trace (ensure_state_loaded config E w)
       @ Called_create_skill
         # (if create_ok (fst (create_new_skill config E p desc tags instr lic meta a b c w))
            then [Called_scan_skills, Called_save_index] else [])"
  by (auto simp: create_new_skill_def Let_def rescan_and_save_trace emit_def split: prod.splits)

lemma delete_existing_skill_trace:
  "w_trace (snd (delete_existing_skill config E sid confirm w))
     = w_trace (ensure_state_loaded config E w)
       @ (case fst (delete_existing_skill config E sid confirm w) of
            Inr (Delete_response result) \<Rightarrow>
              Called_delete_skill
              # (if delete_ok result then [Called_scan_skills, Called_save_index] else [])
          | _ \<Rightarrow> [])"
  by (auto simp: delete_existing_skill_def Let_def rescan_and_save_trace emit_def
      split: prod.splits option.splits)

lemma apply_update_trace:
  "\<exists>calls. w_trace (snd (apply_update E allowed known upd w)) = w_trace w @ calls
     \<and> length calls = (if rewrites_file (fst (apply_update E allowed known upd w)) then 1 else 0)
     \<and> (\<forall>e\<in>set calls. \<exists>p. e = Called_update_tags_in_skill_md p)"
  by (auto simp: apply_update_def Let_def emit_def split: option.splits prod.splits)

lemma apply_updates_trace:
  "\<exists>calls. w_trace (snd (apply_updates E allowed known upds w)) = w_trace w @ calls
     \<and> length calls = length (filter rewrites_file (fst (apply_updates E allowed known upds w)))
     \<and> (\<forall>e\<in>set calls. \<exists>p. e = Called_update_tags_in_skill_md p)"
proof (induction upds arbitrary: w)
  case Nil
  then show ?case by simp
next
  case (Cons upd upds)
  obtain r w1 where s1: "apply_update E allowed known upd w = (r, w1)"
    by (cases "apply_update E allowed known upd w")
  obtain rs w2 where s2: "apply_updates E allowed known upds w1 = (rs, w2)"
    by (cases "apply_updates E allowed known upds w1")
  from apply_update_trace [of E allowed known upd w] s1
  obtain c1 where c1: "w_trace w1 = w_trace w @ c1"
    "length c1 = (if rewrites_file r then 1 else 0)"
    "\<forall>e\<in>set c1. \<exists>p. e = Called_update_tags_in_skill_md p"
    by auto
  from Cons.IH [of w1] s2
  obtain c2 where c2: "w_trace w2 = w_trace w1 @ c2"
    "length c2 = length (filter rewrites_file rs)"
    "\<forall>e\<in>set c2. \<exists>p. e = Called_update_tags_in_skill_md p"
    by auto
  from c1 c2 have "w_trace w2 = w_trace w @ (c1 @ c2)"
    "length (c1 @ c2) = length (filter rewrites_file (r # rs))"
    "\<forall>e\<in>set (c1 @ c2). \<exists>p. e = Called_update_tags_in_skill_md p"
    by auto
  with s1 s2 show ?case
    by (intro exI [of _ "c1 @ c2"]) simp
qed

lemma update_tags_applies_iff:
  "(\<exists>results. fst (update_tags config E mode updates w) = Inr (Tags_applied results))
   \<longleftrightarrow> apply_mode mode \<and> updates \<noteq> None \<and> updates \<noteq> Some []"
proof -
  let ?w = "ensure_state_loaded config E w"
  obtain sc reg where st: "st_scan ?w = Some sc" "st_registry ?w = Some reg"
    using ensure_state_loaded_loads [of config E w] by auto
  show ?thesis
  proof (cases mode)
    case None
    with st show ?thesis
      by (simp add: update_tags_def Let_def apply_mode_def strip_def lstrip_def rstrip_def
          is_space_def lower_def lower_char_def)
  next
    case (Some m)
    with st show ?thesis
      by (cases "m = []")
        (auto simp: update_tags_def Let_def apply_mode_def strip_def lstrip_def rstrip_def
          is_space_def lower_def lower_char_def split: option.splits list.splits prod.splits)
  qed
qed

lemma update_tags_trace:
  "case fst (update_tags config E mode updates w) of
     Inr (Tags_applied results) \<Rightarrow>
       (\<exists>calls. w_trace (snd (update_tags config E mode updates w))
            = w_trace (ensure_state_loaded config E w) @ calls @ [Called_scan_skills, Called_save_index]
          \<and> length calls = length (filter rewrites_file results)
          \<and> (\<forall>e\<in>set calls. \<exists>p. e = Called_update_tags_in_skill_md p))
   | _ \<Rightarrow> w_trace (snd (update_tags config E mode updates w))
            = w_trace (ensure_state_loaded config E w)"
proof (cases "\<exists>results. fst (update_tags config E mode updates w) = Inr (Tags_applied results)")
  case False
  then show ?thesis
    by (auto simp: update_tags_def Let_def split: option.splits list.splits prod.splits if_splits)
next
  case True
  then obtain results where r: "fst (update_tags config E mode updates w) = Inr (Tags_applied results)"
    by blast
  let ?w = "ensure_state_loaded config E w"
  from r obtain sc reg upd upds where
    st: "st_scan ?w = Some sc" "st_registry ?w = Some reg" and u: "updates = Some (upd # upds)"
    by (auto simp: update_tags_def Let_def split: option.splits if_splits list.splits prod.splits)
  obtain rs w2 where a: "apply_updates E (allowed_tags reg) (scan_skills_list sc) (upd # upds) ?w = (rs, w2)"
    by (cases "apply_updates E (allowed_tags reg) (scan_skills_list sc) (upd # upds) ?w")
  from apply_updates_trace [of E "allowed_tags reg" "scan_skills_list sc" "upd # upds" ?w] a
  obtain calls where c: "w_trace w2 = w_trace ?w @ calls"
    "length calls = length (filter rewrites_file rs)"
    "\<forall>e\<in>set calls. \<exists>p. e = Called_update_tags_in_skill_md p"
    by auto
  from r st u a have "snd (update_tags config E mode updates w) = rescan_and_save config E w2"
    and "results = rs"
    by (auto simp: update_tags_def Let_def split: if_splits)
  with c have "\<exists>calls. w_trace (snd (update_tags config E mode updates w))
            = w_trace (ensure_state_loaded config E w) @ calls @ [Called_scan_skills, Called_save_index]
          \<and> length calls = length (filter rewrites_file results)
          \<and> (\<forall>e\<in>set calls. \<exists>p. e = Called_update_tags_in_skill_md p)"
    by (intro exI [of _ calls]) (simp add: rescan_and_save_trace)
  with r show ?thesis by simp
qed

lemma guarded_released:
  "guarded held (Lock_released # e # es) = (\<not> is_mutation_step e \<and> guarded False (e # es))
   \<or> is_lock_event e"
  by (cases e) simp_all

lemma guarded_under_lock:
  assumes "set pre \<subseteq> {Called_load_tags_registry, Called_load_index, Called_scan_skills,
                       Called_save_index}"
  shows "guarded True (pre @ rest) = guarded True rest"
  using assms by (induction pre) auto

lemma released_before_not_guarded:
  assumes "released_before es (e # post)" and "is_mutation_step e"
  shows "\<not> guarded held es"
proof -
  from assms(1) obtain pre where es: "es = Lock_acquired # pre @ Lock_released # e # post"
    and pre: "set pre \<subseteq> {Called_load_tags_registry, Called_load_index, Called_scan_skills,
                       Called_save_index}"
    and e: "\<not> is_lock_event e"
    by (auto simp: released_before_def)
  have "guarded held es = guarded True (pre @ Lock_released # e # post)"
    by (simp add: es)
  also have "\<dots> = guarded True (Lock_released # e # post)"
    using pre by (rule guarded_under_lock)
  also have "\<dots> = False"
    using guarded_released [of True e post] e assms(2) by simp
  finally show ?thesis by simp
qed

lemma create_new_skill_released:
  "released_before (new_events w (snd (create_new_skill config E p desc tags instr lic meta a b c w)))
     (Called_create_skill
      # (if create_ok (fst (create_new_skill config E p desc tags instr lic meta a b c w))
         then [Called_scan_skills, Called_save_index] else []))"
  unfolding new_events_def create_new_skill_trace ensure_state_loaded_released
  by auto

lemma delete_existing_skill_released:
  "released_before (new_events w (snd (delete_existing_skill config E sid confirm w)))
     (case fst (delete_existing_skill config E sid confirm w) of
        Inr (Delete_response result) \<Rightarrow>
          Called_delete_skill
          # (if delete_ok result then [Called_scan_skills, Called_save_index] else [])
      | _ \<Rightarrow> [])"
  unfolding new_events_def delete_existing_skill_trace ensure_state_loaded_released
  by (auto split: sum.splits delete_response.splits)

lemma update_tags_released:
  "case fst (update_tags config E mode updates w) of
     Inr (Tags_applied results) \<Rightarrow>
       (\<exists>calls. length calls = length (filter rewrites_file results)
          \<and> list_all (\<lambda>e. \<exists>p. e = Called_update_tags_in_skill_md p) calls
          \<and> released_before (new_events w (snd (update_tags config E mode updates w)))
              (calls @ [Called_scan_skills, Called_save_index]))
   | _ \<Rightarrow> released_before (new_events w (snd (update_tags config E mode updates w))) []"
proof (cases "\<exists>results. fst (update_tags config E mode updates w) = Inr (Tags_applied results)")
  case False
  with update_tags_trace [of config E mode updates w]
  have "w_trace (snd (update_tags config E mode updates w)) = w_trace (ensure_state_loaded config E w) @ []"
    by (auto split: sum.splits tags_response.splits)
  then have "released_before (new_events w (snd (update_tags config E mode updates w))) []"
    unfolding new_events_def by (simp only: ensure_state_loaded_released) simp
  with False show ?thesis
    by (auto split: sum.splits tags_response.splits)
next
  case True
  then obtain results where r: "fst (update_tags config E mode updates w) = Inr (Tags_applied results)"
    by blast
  with update_tags_trace [of config E mode updates w] obtain calls where
    t: "w_trace (snd (update_tags config E mode updates w))
            = w_trace (ensure_state_loaded config E w) @ calls @ [Called_scan_skills, Called_save_index]"
    and l: "length calls = length (filter rewrites_file results)"
    and c: "\<forall>e\<in>set calls. \<exists>p. e = Called_update_tags_in_skill_md p"
    by auto
  from c have "\<forall>e\<in>set (calls @ [Called_scan_skills, Called_save_index]). \<not> is_lock_event e"
    by auto
  then have "released_before (new_events w (snd (update_tags config E mode updates w)))
         (calls @ [Called_scan_skills, Called_save_index])"
    unfolding new_events_def t ensure_state_loaded_released .
  with c l have "\<exists>calls. length calls = length (filter rewrites_file results)
          \<and> list_all (\<lambda>e. \<exists>p. e = Called_update_tags_in_skill_md p) calls
          \<and> released_before (new_events w (snd (update_tags config E mode updates w)))
              (calls @ [Called_scan_skills, Called_save_index])"
    by (auto simp: list_all_iff)
  with r show ?thesis by simp
qed

lemma create_new_skill_not_guarded:
  "\<not> guarded held (new_events w (snd (create_new_skill config E p desc tags instr lic meta a b c w)))"
  using create_new_skill_released [of w config E p desc tags instr lic meta a b c]
  by (rule released_before_not_guarded) simp

text \<open>
  C1, as amended. The guard \<^verbatim>\<open>state_lock\<close> is taken once by each mutation tool, inside
  \<^verbatim>\<open>_ensure_state_loaded\<close>, where nothing happens but the loading of the registry and of
  the index (with a scan and a save when there is no cache), and it is released before
  the mutation. After the release, and with the guard never taken again:
  \<^verbatim>\<open>create_new_skill\<close> calls \<^verbatim>\<open>create_skill\<close> and, when that succeeds, rescans and
  resaves, so that no call of it keeps its steps under the guard;
  \<^verbatim>\<open>delete_existing_skill\<close> calls \<^verbatim>\<open>delete_skill\<close> for a skill of the index and, when
  that succeeds, rescans and resaves, and does nothing for an unknown skill;
  \<^verbatim>\<open>update_tags\<close> applies updates exactly when the mode is \<^verbatim>\<open>apply\<close> and the list of
  updates is not missing and not empty, and then it rewrites one skill file for each
  update that passes its checks, rescans and resaves; in every other case (list mode, an
  invalid mode, missing or empty updates) it does nothing after the release.
\<close>

theorem mutations_run_after_lock_release:
  "released_before (new_events w (snd (create_new_skill config E p desc tags instr lic meta a b c w)))
     (Called_create_skill
      # (if create_ok (fst (create_new_skill config E p desc tags instr lic meta a b c w))
         then [Called_scan_skills, Called_save_index] else []))
   \<and> \<not> guarded held
        (new_events w (snd (create_new_skill config E p desc tags instr lic meta a b c w)))
   \<and> released_before (new_events w (snd (delete_existing_skill config E sid confirm w)))
       (case fst (delete_existing_skill config E sid confirm w) of
          Inr (Delete_response result) \<Rightarrow>
            Called_delete_skill
            # (if delete_ok result then [Called_scan_skills, Called_save_index] else [])
        | _ \<Rightarrow> [])
   \<and> ((\<exists>results. fst (update_tags config E mode updates w) = Inr (Tags_applied results))
        \<longleftrightarrow> apply_mode mode \<and> updates \<noteq> None \<and> updates \<noteq> Some [])
   \<and> (case fst (update_tags config E mode updates w) of
         Inr (Tags_applied results) \<Rightarrow>
           (\<exists>calls. length calls = length (filter rewrites_file results)
              \<and> list_all (\<lambda>e. \<exists>p. e = Called_update_tags_in_skill_md p) calls
              \<and> released_before (new_events w (snd (update_tags config E mode updates w)))
                  (calls @ [Called_scan_skills, Called_save_index]))
       | _ \<Rightarrow> released_before (new_events w (snd (update_tags config E mode updates w))) [])"
  apply (intro conjI)
      apply (rule create_new_skill_released)
     apply (rule create_new_skill_not_guarded)
    apply (rule delete_existing_skill_released)
   apply (rule update_tags_applies_iff)
  apply (rule update_tags_released)
  done

lemma demo_create_result:
  "fst (create_new_skill demo_config demo_env ''fresh'' ''A demo'' None None None None
          False False False (loaded_world demo_fs))
   = Create_ok (demo_root @ [''fresh'', ''SKILL.md'']) (demo_root @ [''fresh'']) ''fresh'' []"
  by code_simp

lemma demo_create_file:
  "w_fs (snd (create_new_skill demo_config demo_env ''fresh'' ''A demo'' None None None None
          False False False (loaded_world demo_fs))) (demo_root @ [''fresh'', ''SKILL.md''])
   = Some (File (generate_skill_markdown ''fresh'' ''A demo'' [] None None None))"
  by code_simp

lemma demo_create_trace:
  "w_trace (snd (create_new_skill demo_config demo_env ''fresh'' ''A demo'' None None None None
          False False False (loaded_world demo_fs)))
   = [Lock_acquired, Lock_released, Called_create_skill, Called_scan_skills, Called_save_index]"
  by code_simp

lemma demo_delete_result:
  "fst (delete_existing_skill demo_config demo_env ''demo'' True (loaded_world demo_fs))
   = Inr (Delete_response (Delete_ok demo_md (parent demo_md)))"
  by code_simp

lemma demo_update_result:
  "fst (update_tags demo_config demo_env (Some ''apply'')
          (Some [\<lparr>upd_skill_id = Some ''demo'', upd_tags = Some [''python'']\<rparr>])
          (tagged_world demo_fs))
   = Inr (Tags_applied [Tags_written ''demo'' [''python'']])"
  by code_simp

lemma demo_update_trace:
  "w_trace (snd (update_tags demo_config demo_env (Some ''apply'')
          (Some [\<lparr>upd_skill_id = Some ''demo'', upd_tags = Some [''python'']\<rparr>])
          (tagged_world demo_fs)))
   = [Lock_acquired, Lock_released, Called_update_tags_in_skill_md demo_md,
      Called_scan_skills, Called_save_index]"
  by code_simp

lemma demo_update_file:
  "w_fs (snd (update_tags demo_config demo_env (Some ''apply'')
          (Some [\<lparr>upd_skill_id = Some ''demo'', upd_tags = Some [''python'']\<rparr>])
          (tagged_world demo_fs))) demo_md
   = Some (File (''---'' @ nl @ ''name: demo'' @ nl @ ''tags: [python]'' @ nl @ ''---'' @ nl))"
  by code_simp

lemma demo_missing_updates:
  "fst (update_tags demo_config demo_env (Some ''apply'') (Some []) (tagged_world demo_fs))
   = Inr Missing_updates"
  by code_simp

text \<open>
  The statement above for a server whose state is loaded: the creation of a new skill,
  the confirmed deletion of the skill in the index, an update that writes an allowed tag
  into the skill file, and an apply call with an empty list of updates.
\<close>

theorem mutations_run_after_lock_release_witness:
  "released_before
     (new_events (loaded_world demo_fs)
        (snd (create_new_skill demo_config demo_env ''fresh'' ''A demo'' None None None None
                False False False (loaded_world demo_fs))))
     [Called_create_skill, Called_scan_skills, Called_save_index]
   \<and> fst (delete_existing_skill demo_config demo_env ''demo'' True (loaded_world demo_fs))
       = Inr (Delete_response (Delete_ok demo_md (parent demo_md)))
   \<and> released_before
       (new_events (loaded_world demo_fs)
          (snd (delete_existing_skill demo_config demo_env ''demo'' True (loaded_world demo_fs))))
       [Called_delete_skill, Called_scan_skills, Called_save_index]
   \<and> apply_mode (Some ''apply'')
   \<and> fst (update_tags demo_config demo_env (Some ''apply'')
            (Some [\<lparr>upd_skill_id = Some ''demo'', upd_tags = Some [''python'']\<rparr>])
            (tagged_world demo_fs))
       = Inr (Tags_applied [Tags_written ''demo'' [''python'']])
   \<and> w_fs (snd (update_tags demo_config demo_env (Some ''apply'')
            (Some [\<lparr>upd_skill_id = Some ''demo'', upd_tags = Some [''python'']\<rparr>])
            (tagged_world demo_fs))) demo_md
       = Some (File (''---'' @ nl @ ''name: demo'' @ nl @ ''tags: [python]'' @ nl @ ''---'' @ nl))
   \<and> new_events (tagged_world demo_fs)
        (snd (update_tags demo_config demo_env (Some ''apply'')
            (Some [\<lparr>upd_skill_id = Some ''demo'', upd_tags = Some [''python'']\<rparr>])
            (tagged_world demo_fs)))
       = [Lock_acquired, Lock_released, Called_update_tags_in_skill_md demo_md,
          Called_scan_skills, Called_save_index]
   \<and> (\<exists>calls. length calls = 1
         \<and> list_all (\<lambda>e. \<exists>p. e = Called_update_tags_in_skill_md p) calls
         \<and> released_before
             (new_events (tagged_world demo_fs)
                (snd (update_tags demo_config demo_env (Some ''apply'')
                        (Some [\<lparr>upd_skill_id = Some ''demo'', upd_tags = Some [''python'']\<rparr>])
                        (tagged_world demo_fs))))
             (calls @ [Called_scan_skills, Called_save_index]))
   \<and> fst (update_tags demo_config demo_env (Some ''apply'') (Some []) (tagged_world demo_fs))
       = Inr Missing_updates
   \<and> released_before
       (new_events (tagged_world demo_fs)
          (snd (update_tags demo_config demo_env (Some ''apply'') (Some []) (tagged_world demo_fs))))
       []"
proof -
  have m: "apply_mode (Some ''apply'')"
    by (simp add: apply_mode_def strip_def lstrip_def rstrip_def is_space_def lower_def
        lower_char_def)
  have e: "w_trace (tagged_world demo_fs) = []"
    by (simp add: tagged_world_def)
  have t: "new_events (tagged_world demo_fs)
        (snd (update_tags demo_config demo_env (Some ''apply'')
            (Some [\<lparr>upd_skill_id = Some ''demo'', upd_tags = Some [''python'']\<rparr>])
            (tagged_world demo_fs)))
       = [Lock_acquired, Lock_released, Called_update_tags_in_skill_md demo_md,
          Called_scan_skills, Called_save_index]"
    by (simp add: new_events_def e demo_update_trace)
  have c: "released_before
     (new_events (loaded_world demo_fs)
        (snd (create_new_skill demo_config demo_env ''fresh'' ''A demo'' None None None None
                False False False (loaded_world demo_fs))))
     [Called_create_skill, Called_scan_skills, Called_save_index]
   \<and> released_before
       (new_events (loaded_world demo_fs)
          (snd (delete_existing_skill demo_config demo_env ''demo'' True (loaded_world demo_fs))))
       [Called_delete_skill, Called_scan_skills, Called_save_index]"
    using mutations_run_after_lock_release [where w = "loaded_world demo_fs"
        and config = demo_config and E = demo_env and p = "''fresh''" and desc = "''A demo''"
        and tags = None and instr = None and lic = None and meta = None and a = False
        and b = False and c = False and sid = "''demo''" and confirm = True]
      demo_create_result demo_delete_result
    by simp
  have u: "\<exists>calls. length calls = 1
         \<and> list_all (\<lambda>e. \<exists>p. e = Called_update_tags_in_skill_md p) calls
         \<and> released_before
             (new_events (tagged_world demo_fs)
                (snd (update_tags demo_config demo_env (Some ''apply'')
                        (Some [\<lparr>upd_skill_id = Some ''demo'', upd_tags = Some [''python'']\<rparr>])
                        (tagged_world demo_fs))))
             (calls @ [Called_scan_skills, Called_save_index])"
    using mutations_run_after_lock_release [where w = "tagged_world demo_fs"
        and config = demo_config and E = demo_env and mode = "Some ''apply''"
        and updates = "Some [\<lparr>upd_skill_id = Some ''demo'', upd_tags = Some [''python'']\<rparr>]"]
      demo_update_result
    by simp
  have n: "released_before
       (new_events (tagged_world demo_fs)
          (snd (update_tags demo_config demo_env (Some ''apply'') (Some []) (tagged_world demo_fs))))
       []"
    using mutations_run_after_lock_release [where w = "tagged_world demo_fs"
        and config = demo_config and E = demo_env and mode = "Some ''apply''"
        and updates = "Some []"]
      demo_missing_updates
    by simp
  from m c u n t show ?thesis
    using demo_delete_result demo_update_result demo_update_file demo_missing_updates
    by blast
qed

text \<open>
  C1 as stated says that the change of the files, the rescan and the resave complete
  before the guard is released. The creation of a skill on a loaded server succeeds and
  writes the skill file, and its events are: the guard taken, the guard released, then
  \<^verbatim>\<open>create_skill\<close>, the rescan and the resave. None of the three steps runs while the
  guard is held.
\<close>

theorem mutations_not_under_lock_counterexample:
  "create_ok (fst (create_new_skill demo_config demo_env ''fresh'' ''A demo'' None None None None
                     False False False (loaded_world demo_fs)))
   \<and> w_fs (loaded_world demo_fs) (demo_root @ [''fresh'', ''SKILL.md'']) = None
   \<and> w_fs (snd (create_new_skill demo_config demo_env ''fresh'' ''A demo'' None None None None
                  False False False (loaded_world demo_fs))) (demo_root @ [''fresh'', ''SKILL.md''])
       = Some (File (generate_skill_markdown ''fresh'' ''A demo'' [] None None None))
   \<and> new_events (loaded_world demo_fs)
        (snd (create_new_skill demo_config demo_env ''fresh'' ''A demo'' None None None None
                False False False (loaded_world demo_fs)))
       = [Lock_acquired, Lock_released, Called_create_skill, Called_scan_skills, Called_save_index]
   \<and> \<not> guarded False
          (new_events (loaded_world demo_fs)
             (snd (create_new_skill demo_config demo_env ''fresh'' ''A demo'' None None None None
                     False False False (loaded_world demo_fs))))"
proof -
  have "w_fs (loaded_world demo_fs) (demo_root @ [''fresh'', ''SKILL.md'']) = None"
    by (simp add: loaded_world_def demo_fs_def demo_root_def demo_md_def)
  moreover have "w_trace (loaded_world demo_fs) = []"
    by (simp add: loaded_world_def)
  ultimately show ?thesis
    using demo_create_result demo_create_file demo_create_trace
    by (simp add: new_events_def)
qed

end
